theory Spec2Isabelle
  imports Complex_Main "HOL-Library.AList"
begin

section \<open>Python values\<close>

text \<open>
  The script \<^verbatim>\<open>DFtoMongo/script.py\<close> works on the untyped result of \<^verbatim>\<open>json.load\<close>
  and puts \<^verbatim>\<open>datetime\<close> objects into the cells of its tables. A \<^verbatim>\<open>datetime\<close> that
  \<^verbatim>\<open>to_dt\<close> returns always carries the UTC time zone, so only its seven fields are kept.
\<close>

record datetime =
  year :: int
  month :: int
  day :: int
  hour :: int
  minute :: int
  second :: int
  microsecond :: int

text \<open>
  A Python value: the JSON values, the float specials \<^verbatim>\<open>nan\<close> (the missing-value
  marker of pandas) and \<^verbatim>\<open>inf\<close>, and a UTC \<^verbatim>\<open>datetime\<close>. A finite float is kept
  as the rational it denotes; the code only truncates floats and passes them on. A dict is
  an association list in insertion order, read with \<^const>\<open>map_of\<close>; a string is a list
  of 8-bit characters (code points below 256).
\<close>

datatype pyval =
    PNone
  | PBool bool
  | PInt int
  | PFloat rat
  | PNaN
  | PInf bool
  | PStr string
  | PList "pyval list"
  | PDict "(string \<times> pyval) list"
  | PDatetime datetime

type_synonym pydict = "(string \<times> pyval) list"

text \<open>
  The exceptions of Python that the script can meet, and \<open>Not_modelled\<close>: the input
  leaves the part of pandas that is modelled here (see \<open>nested_to_record\<close> and
  \<open>flatten_records\<close> below), and the model says nothing about what pandas does with it.
\<close>

datatype error =
    AttributeError
  | KeyError
  | TypeError
  | ValueError
  | OverflowError
  | IndexError
  | Not_modelled

definition ebind :: "error + 'a \<Rightarrow> ('a \<Rightarrow> error + 'b) \<Rightarrow> error + 'b" where
  "ebind m f = (case m of Inl e \<Rightarrow> Inl e | Inr x \<Rightarrow> f x)"

text \<open>\<^verbatim>\<open>isinstance(v, dict)\<close> and \<^verbatim>\<open>isinstance(v, list)\<close>.\<close>

fun is_dict :: "pyval \<Rightarrow> bool" where
  "is_dict (PDict _) = True"
| "is_dict _ = False"

fun is_list :: "pyval \<Rightarrow> bool" where
  "is_list (PList _) = True"
| "is_list _ = False"

text \<open>
  \<^verbatim>\<open>v.get(k, default)\<close> and \<^verbatim>\<open>v.keys()\<close>: only a dict has these methods, every
  other value raises \<^verbatim>\<open>AttributeError\<close>.
\<close>

fun py_get :: "pyval \<Rightarrow> string \<Rightarrow> pyval \<Rightarrow> error + pyval" where
  "py_get (PDict d) k dflt = Inr (case map_of d k of None \<Rightarrow> dflt | Some v \<Rightarrow> v)"
| "py_get _ k dflt = Inl AttributeError"

fun py_keys :: "pyval \<Rightarrow> error + string list" where
  "py_keys (PDict d) = Inr (map fst d)"
| "py_keys _ = Inl AttributeError"

text \<open>\<^verbatim>\<open>d[k]\<close> on a dict: \<^verbatim>\<open>KeyError\<close> when the key is missing.\<close>

definition dict_item :: "pydict \<Rightarrow> string \<Rightarrow> error + pyval" where
  "dict_item d k = (case map_of d k of None \<Rightarrow> Inl KeyError | Some v \<Rightarrow> Inr v)"

text \<open>Truthiness, as \<^verbatim>\<open>x or y\<close> and \<^verbatim>\<open>not x\<close> test it.\<close>

fun truthy :: "pyval \<Rightarrow> bool" where
  "truthy PNone = False"
| "truthy (PBool b) = b"
| "truthy (PInt n) = (n \<noteq> 0)"
| "truthy (PFloat r) = (r \<noteq> 0)"
| "truthy PNaN = True"
| "truthy (PInf _) = True"
| "truthy (PStr s) = (s \<noteq> [])"
| "truthy (PList xs) = (xs \<noteq> [])"
| "truthy (PDict d) = (d \<noteq> [])"
| "truthy (PDatetime _) = True"

subsection \<open>The built-in \<^verbatim>\<open>int()\<close>\<close>

text \<open>
  \<^verbatim>\<open>int(s)\<close> on a string, as CPython 3.11 reads it: whitespace around the number is
  dropped, then come an optional sign and decimal digits, where single underscores may
  separate digits; anything else raises \<^verbatim>\<open>ValueError\<close>. The whitespace is that of ASCII
  (tab, line feed, vertical tab, form feed, carriage return, space) and, of the code
  points from 128 to 255, the next-line character 133 and the no-break space 160, which
  \<^verbatim>\<open>int\<close> turns into spaces first; the separators 28 to 31, which \<^verbatim>\<open>str.strip\<close> would
  drop, are not among them. A number of more than 4300 digits, leading zeros counted, is
  refused with \<^verbatim>\<open>ValueError\<close> too (the default of \<^verbatim>\<open>sys.get_int_max_str_digits()\<close>).
\<close>

definition py_isspace :: "char \<Rightarrow> bool" where
  "py_isspace c = (of_char c \<in> {9, 10, 11, 12, 13, 32, 133, 160 :: nat})"

definition is_digit :: "char \<Rightarrow> bool" where
  "is_digit c = (48 \<le> (of_char c :: nat) \<and> (of_char c :: nat) \<le> 57)"

definition digit_val :: "char \<Rightarrow> int" where
  "digit_val c = int (of_char c) - 48"

text \<open>Digits with single underscores between them, most significant first.\<close>

fun digits_us :: "int \<Rightarrow> bool \<Rightarrow> string \<Rightarrow> int option" where
  "digits_us acc after_digit [] = (if after_digit then Some acc else None)"
| "digits_us acc after_digit (c # cs) =
     (if is_digit c then digits_us (acc * 10 + digit_val c) True cs
      else if c = CHR ''_'' \<and> after_digit \<and> cs \<noteq> [] \<and> is_digit (hd cs)
        then digits_us acc False cs
      else None)"

definition int_max_str_digits :: nat where
  "int_max_str_digits = 4300"

definition digits_value :: "string \<Rightarrow> error + int" where
  "digits_value cs =
     (case digits_us 0 False cs of
        None \<Rightarrow> Inl ValueError
      | Some n \<Rightarrow>
          if int_max_str_digits < length (filter is_digit cs) then Inl ValueError else Inr n)"

definition py_strip :: "string \<Rightarrow> string" where
  "py_strip s = rev (dropWhile py_isspace (rev (dropWhile py_isspace s)))"

definition int_of_str :: "string \<Rightarrow> error + int" where
  "int_of_str s =
     (case py_strip s of
        [] \<Rightarrow> Inl ValueError
      | c # cs \<Rightarrow>
          (if c = CHR ''-'' then map_sum id uminus (digits_value cs)
           else if c = CHR ''+'' then digits_value cs
           else digits_value (c # cs)))"

text \<open>Truncation towards zero, as \<^verbatim>\<open>int(x)\<close> does on a float.\<close>

definition trunc :: "rat \<Rightarrow> int" where
  "trunc r = (if 0 \<le> r then \<lfloor>r\<rfloor> else \<lceil>r\<rceil>)"

fun py_int :: "pyval \<Rightarrow> error + int" where
  "py_int (PInt n) = Inr n"
| "py_int (PBool b) = Inr (if b then 1 else 0)"
| "py_int (PFloat r) = Inr (trunc r)"
| "py_int PNaN = Inl ValueError"
| "py_int (PInf _) = Inl OverflowError"
| "py_int (PStr s) = int_of_str s"
| "py_int PNone = Inl TypeError"
| "py_int (PList _) = Inl TypeError"
| "py_int (PDict _) = Inl TypeError"
| "py_int (PDatetime _) = Inl TypeError"

section \<open>Dates\<close>

text \<open>
  The proleptic Gregorian calendar of the standard library's \<^verbatim>\<open>datetime\<close> module:
  day 1 is 1 January of year 1, the largest date is 31 December 9999.
\<close>

definition is_leap :: "int \<Rightarrow> bool" where
  "is_leap y = (y mod 4 = 0 \<and> (y mod 100 \<noteq> 0 \<or> y mod 400 = 0))"

definition days_before_year :: "int \<Rightarrow> int" where
  "days_before_year y = (y - 1) * 365 + (y - 1) div 4 - (y - 1) div 100 + (y - 1) div 400"

definition DAYS_IN_MONTH :: "int list" where
  "DAYS_IN_MONTH = [-1, 31, 28, 31, 30, 31, 30, 31, 31, 30, 31, 30, 31]"

definition DAYS_BEFORE_MONTH :: "int list" where
  "DAYS_BEFORE_MONTH = [-1, 0, 31, 59, 90, 120, 151, 181, 212, 243, 273, 304, 334]"

definition days_in_month :: "int \<Rightarrow> int \<Rightarrow> int" where
  "days_in_month y m = (if m = 2 \<and> is_leap y then 29 else DAYS_IN_MONTH ! nat m)"

definition days_before_month :: "int \<Rightarrow> int \<Rightarrow> int" where
  "days_before_month y m = DAYS_BEFORE_MONTH ! nat m + (if 2 < m \<and> is_leap y then 1 else 0)"

definition ymd2ord :: "int \<Rightarrow> int \<Rightarrow> int \<Rightarrow> int" where
  "ymd2ord y m d = days_before_year y + days_before_month y m + d"

definition DI400Y :: int where "DI400Y = 146097"
definition DI100Y :: int where "DI100Y = 36524"
definition DI4Y :: int where "DI4Y = 1461"
definition MAXORDINAL :: int where "MAXORDINAL = 3652059"

definition ord2ymd :: "int \<Rightarrow> int \<times> int \<times> int" where
  "ord2ymd n0 =
     (let n = n0 - 1;
          n400 = n div DI400Y; n = n mod DI400Y;
          y = n400 * 400 + 1;
          n100 = n div DI100Y; n = n mod DI100Y;
          n4 = n div DI4Y; n = n mod DI4Y;
          n1 = n div 365; n = n mod 365;
          y = y + n100 * 100 + n4 * 4 + n1
      in if n1 = 4 \<or> n100 = 4 then (y - 1, 12, 31)
         else
           let leapyear = (n1 = 3 \<and> (n4 \<noteq> 24 \<or> n100 = 3));
               m = (n + 50) div 32;
               preceding = DAYS_BEFORE_MONTH ! nat m + (if 2 < m \<and> leapyear then 1 else 0)
           in if n < preceding
              then let m' = m - 1;
                       preceding' = preceding
                         - (DAYS_IN_MONTH ! nat m' + (if m' = 2 \<and> leapyear then 1 else 0))
                   in (y, m', n - preceding' + 1)
              else (y, m, n - preceding + 1))"

text \<open>
  The constructor \<^verbatim>\<open>datetime(y, m, d, hh, mm, tzinfo=tzutc())\<close>: an argument that does
  not fit a C \<^verbatim>\<open>int\<close> raises \<^verbatim>\<open>OverflowError\<close>, a field out of range raises
  \<^verbatim>\<open>ValueError\<close>.
\<close>

definition fits_c_int :: "int \<Rightarrow> bool" where
  "fits_c_int n = (- 2147483648 \<le> n \<and> n \<le> 2147483647)"

definition valid_date :: "int \<Rightarrow> int \<Rightarrow> int \<Rightarrow> bool" where
  "valid_date y m d = (1 \<le> y \<and> y \<le> 9999 \<and> 1 \<le> m \<and> m \<le> 12 \<and> 1 \<le> d \<and> d \<le> days_in_month y m)"

definition mk_datetime :: "int \<Rightarrow> int \<Rightarrow> int \<Rightarrow> int \<Rightarrow> int \<Rightarrow> error + datetime" where
  "mk_datetime y m d hh mm =
     (if \<not> (fits_c_int y \<and> fits_c_int m \<and> fits_c_int d \<and> fits_c_int hh \<and> fits_c_int mm)
        then Inl OverflowError
      else if valid_date y m d \<and> 0 \<le> hh \<and> hh \<le> 23 \<and> 0 \<le> mm \<and> mm \<le> 59
        then Inr \<lparr>year = y, month = m, day = d, hour = hh, minute = mm,
                  second = 0, microsecond = 0\<rparr>
      else Inl ValueError)"

text \<open>
  \<^verbatim>\<open>dt - offset\<close> for a \<^verbatim>\<open>timedelta\<close> given in microseconds; \<^const>\<open>None\<close> is the
  \<^verbatim>\<open>OverflowError\<close> of a result outside years 1 to 9999.
\<close>

definition US_PER_DAY :: int where "US_PER_DAY = 86400000000"

definition to_microseconds :: "datetime \<Rightarrow> int" where
  "to_microseconds dt =
     ((ymd2ord (year dt) (month dt) (day dt) * 86400
        + hour dt * 3600 + minute dt * 60 + second dt) * 1000000 + microsecond dt)"

definition of_microseconds :: "int \<Rightarrow> datetime option" where
  "of_microseconds t =
     (let days = t div US_PER_DAY; r = t mod US_PER_DAY;
          secs = r div 1000000; us = r mod 1000000
      in if 0 < days \<and> days \<le> MAXORDINAL
         then (case ord2ymd days of (y, m, d) \<Rightarrow>
                 Some \<lparr>year = y, month = m, day = d, hour = secs div 3600,
                       minute = (secs mod 3600) div 60, second = secs mod 60,
                       microsecond = us\<rparr>)
         else None)"

definition sub_offset :: "datetime \<Rightarrow> int \<Rightarrow> datetime option" where
  "sub_offset dt off = of_microseconds (to_microseconds dt - off)"

section \<open>The environment of the script\<close>

text \<open>
  Two things \<^verbatim>\<open>to_dt\<close> uses are not part of the repository and not fixed by it:
  \<^item> the standard library's parser \<^verbatim>\<open>datetime.fromisoformat\<close>, whose accepted strings
    differ between Python versions. It returns the fields it read and the UTC offset (in
    microseconds) when the string carries one; \<^const>\<open>None\<close> is its \<^verbatim>\<open>ValueError\<close>;
  \<^item> the time zone of the machine, which \<^verbatim>\<open>astimezone\<close> consults for a \<^verbatim>\<open>datetime\<close>
    without an offset: the UTC offset (in microseconds) of a local wall-clock time;
    \<^const>\<open>None\<close> is the error the platform raises when it cannot tell.
\<close>

record py_env =
  fromisoformat :: "string \<Rightarrow> (datetime \<times> int option) option"
  local_utcoffset :: "datetime \<Rightarrow> int option"

subsection \<open>A reference parser and reference environments\<close>

text \<open>
  For concrete runs: the grammar that the library documents for \<^verbatim>\<open>fromisoformat\<close> up
  to Python 3.10, \<^verbatim>\<open>YYYY-MM-DD[*HH[:MM[:SS[.fff[fff]]]][+HH:MM[:SS[.ffffff]]]]\<close>, where
  \<^verbatim>\<open>*\<close> is any one character. Later versions accept these strings too, and more.
\<close>

definition all_digits :: "string \<Rightarrow> bool" where
  "all_digits s = (s \<noteq> [] \<and> list_all is_digit s)"

definition digits_val :: "string \<Rightarrow> int" where
  "digits_val s = foldl (\<lambda>acc c. acc * 10 + digit_val c) 0 s"

definition num_n :: "nat \<Rightarrow> string \<Rightarrow> int option" where
  "num_n n s = (if length s = n \<and> all_digits s then Some (digits_val s) else None)"

definition parse_hh_mm_ss_ff :: "string \<Rightarrow> (int \<times> int \<times> int \<times> int) option" where
  "parse_hh_mm_ss_ff s =
     (case num_n 2 (take 2 s) of
        None \<Rightarrow> None
      | Some hh \<Rightarrow>
          if length s = 2 then Some (hh, 0, 0, 0)
          else if s ! 2 \<noteq> CHR '':'' then None
          else (case num_n 2 (take 2 (drop 3 s)) of
                  None \<Rightarrow> None
                | Some mm \<Rightarrow>
                    if length s = 5 then Some (hh, mm, 0, 0)
                    else if s ! 5 \<noteq> CHR '':'' then None
                    else (case num_n 2 (take 2 (drop 6 s)) of
                            None \<Rightarrow> None
                          | Some ss \<Rightarrow>
                              if length s = 8 then Some (hh, mm, ss, 0)
                              else if s ! 8 \<noteq> CHR ''.'' then None
                              else if length s = 12
                                then map_option (\<lambda>f. (hh, mm, ss, f * 1000)) (num_n 3 (drop 9 s))
                              else if length s = 15
                                then map_option (\<lambda>f. (hh, mm, ss, f)) (num_n 6 (drop 9 s))
                              else None)))"

definition is_sign :: "char \<Rightarrow> bool" where
  "is_sign c = (c = CHR ''+'' \<or> c = CHR ''-'')"

text \<open>
  The offset \<^verbatim>\<open>+HH:MM[:SS[.ffffff]]\<close> in microseconds; the library refuses an offset
  of a day or more.
\<close>

definition parse_tz :: "string \<Rightarrow> int option" where
  "parse_tz s =
     (case s of
        [] \<Rightarrow> None
      | sg # r \<Rightarrow>
          if length r \<notin> {5, 8, 15} then None
          else (case parse_hh_mm_ss_ff r of
                  None \<Rightarrow> None
                | Some (h, m, sec, us) \<Rightarrow>
                    let off = ((h * 3600 + m * 60 + sec) * 1000000 + us)
                    in if off < US_PER_DAY
                       then Some (if sg = CHR ''-'' then - off else off)
                       else None))"

definition iso_parse :: "string \<Rightarrow> (datetime \<times> int option) option" where
  "iso_parse s =
     (if length s < 10 \<or> s ! 4 \<noteq> CHR ''-'' \<or> s ! 7 \<noteq> CHR ''-'' then None
      else
        (case (num_n 4 (take 4 s), num_n 2 (take 2 (drop 5 s)), num_n 2 (take 2 (drop 8 s))) of
           (Some y, Some m, Some d) \<Rightarrow>
             if \<not> valid_date y m d then None
             else if length s = 10
               then Some (\<lparr>year = y, month = m, day = d, hour = 0, minute = 0,
                            second = 0, microsecond = 0\<rparr>, None)
             else
               (let t = drop 11 s;
                    tm = takeWhile (\<lambda>c. \<not> is_sign c) t;
                    tz = dropWhile (\<lambda>c. \<not> is_sign c) t
                in case parse_hh_mm_ss_ff tm of
                     None \<Rightarrow> None
                   | Some (hh, mm, ss, us) \<Rightarrow>
                       if \<not> (hh \<le> 23 \<and> mm \<le> 59 \<and> ss \<le> 59) then None
                       else
                         let dt = \<lparr>year = y, month = m, day = d, hour = hh, minute = mm,
                                    second = ss, microsecond = us\<rparr>
                         in if tz = [] then Some (dt, None)
                            else (case parse_tz tz of
                                    None \<Rightarrow> None
                                  | Some off \<Rightarrow> Some (dt, Some off)))
         | _ \<Rightarrow> None))"

text \<open>A machine whose local time is UTC, and one whose local time is nine hours ahead.\<close>

definition utc_env :: py_env where
  "utc_env = \<lparr>fromisoformat = iso_parse, local_utcoffset = (\<lambda>_. Some 0)\<rparr>"

definition tokyo_env :: py_env where
  "tokyo_env = \<lparr>fromisoformat = iso_parse, local_utcoffset = (\<lambda>_. Some 32400000000)\<rparr>"

text \<open>\<^verbatim>\<open>dt.astimezone(tzutc())\<close>; \<^const>\<open>None\<close> when it raises.\<close>

definition astimezone_utc :: "py_env \<Rightarrow> datetime \<times> int option \<Rightarrow> datetime option" where
  "astimezone_utc env p =
     (case p of
        (dt, Some off) \<Rightarrow> sub_offset dt off
      | (dt, None) \<Rightarrow>
          (case local_utcoffset env dt of None \<Rightarrow> None | Some off \<Rightarrow> sub_offset dt off))"

text \<open>\<^verbatim>\<open>s.replace("Z", "+00:00")\<close>: every \<^verbatim>\<open>Z\<close> of the string is replaced.\<close>

definition replace_Z :: "string \<Rightarrow> string" where
  "replace_Z s = concat (map (\<lambda>c. if c = CHR ''Z'' then ''+00:00'' else [c]) s)"

section \<open>The timestamp unifier \<^verbatim>\<open>to_dt\<close>\<close>

text \<open>
  The structured branch of \<^verbatim>\<open>to_dt\<close> (script lines 22 to 25), once the test of line 21
  has passed: \<^verbatim>\<open>d\<close> is the dict holding the date parts, \<^verbatim>\<open>s\<close> the argument.
\<close>

definition to_dt_parts :: "pydict \<Rightarrow> pydict \<Rightarrow> error + pyval" where
  "to_dt_parts s d =
     (let t = (case map_of s ''dueTime'' of None \<Rightarrow> PDict [] | Some v \<Rightarrow> v) in
      ebind (py_get t ''hours'' (PInt 0)) (\<lambda>h.
      ebind (py_int h) (\<lambda>hh.
      ebind (py_get t ''minutes'' (PInt 0)) (\<lambda>m.
      ebind (py_int m) (\<lambda>mm.
      ebind (dict_item d ''year'') (\<lambda>yv.
      ebind (py_int yv) (\<lambda>y.
      ebind (dict_item d ''month'') (\<lambda>mv.
      ebind (py_int mv) (\<lambda>mo.
      ebind (dict_item d ''day'') (\<lambda>dv.
      ebind (py_int dv) (\<lambda>dd.
      ebind (mk_datetime y mo dd hh mm) (\<lambda>dt. Inr (PDatetime dt)))))))))))))"

fun to_dt :: "py_env \<Rightarrow> pyval \<Rightarrow> error + pyval" where
  "to_dt env PNone = Inr PNone"
| "to_dt env (PStr str) =
     (case fromisoformat env (replace_Z str) of
        None \<Rightarrow> Inr PNone
      | Some p \<Rightarrow>
          (case astimezone_utc env p of
             None \<Rightarrow> Inr PNone
           | Some dt \<Rightarrow> Inr (PDatetime dt)))"
| "to_dt env (PDict s) =
     ebind (py_keys (case map_of s ''dueDate'' of None \<Rightarrow> PDict s | Some v \<Rightarrow> v)) (\<lambda>ks.
       if {''year'', ''month'', ''day''} \<subseteq> set ks
       then (case (case map_of s ''dueDate'' of None \<Rightarrow> PDict s | Some v \<Rightarrow> v) of
               PDict d \<Rightarrow> to_dt_parts s d
             | _ \<Rightarrow> Inl AttributeError)
       else Inr PNone)"
| "to_dt env _ = Inr PNone"

section \<open>The attachment extractor and the latest-grade picker\<close>

text \<open>
  A row of a table, as \<^verbatim>\<open>DataFrame.apply(f, axis=1)\<close> hands it to \<^verbatim>\<open>f\<close>: the column
  labels with the cells of the row. \<^verbatim>\<open>row.get(k, default)\<close> reads a label that occurs
  once; the tables of the script never hold twice a label that it reads this way.
\<close>

definition series_get :: "pydict \<Rightarrow> string \<Rightarrow> pyval \<Rightarrow> pyval" where
  "series_get row k dflt = (case map_of row k of None \<Rightarrow> dflt | Some v \<Rightarrow> v)"

text \<open>The dict built at script lines 122 to 127; \<^verbatim>\<open>inner.get(k)\<close> is \<^verbatim>\<open>None\<close> for a missing key.\<close>

definition descriptor :: "pydict \<Rightarrow> pyval" where
  "descriptor inner =
     PDict [(''id'', series_get inner ''id'' PNone),
            (''title'', series_get inner ''title'' PNone),
            (''link'', series_get inner ''alternateLink'' PNone),
            (''thumb'', series_get inner ''thumbnailUrl'' PNone)]"

text \<open>The loop of script lines 117 to 127, with the list \<^verbatim>\<open>out\<close> built so far.\<close>

fun attach_loop :: "pyval list \<Rightarrow> pyval list \<Rightarrow> error + pyval list" where
  "attach_loop [] out = Inr out"
| "attach_loop (att # rest) out =
     ebind (py_get att ''driveFile'' PNone) (\<lambda>g.
       let df = (if truthy g then g else PDict []) in
       ebind (py_get df ''driveFile'' PNone) (\<lambda>g2.
         let inner = (if is_dict g2 then g2 else df) in
         (case inner of
            PDict i \<Rightarrow> attach_loop rest (out @ [descriptor i])
          | _ \<Rightarrow> attach_loop rest out)))"

definition extract_attachments :: "pydict \<Rightarrow> error + pyval" where
  "extract_attachments row =
     (case series_get row ''assignmentSubmission.attachments'' PNone of
        PList x \<Rightarrow> ebind (attach_loop x []) (\<lambda>out. Inr (if out = [] then PNone else PList out))
      | _ \<Rightarrow> Inr PNone)"

text \<open>The loop of script lines 138 to 141, with the running value \<^verbatim>\<open>pts\<close>.\<close>

fun pick_loop :: "pyval list \<Rightarrow> pyval \<Rightarrow> pyval" where
  "pick_loop [] pts = pts"
| "pick_loop (h # rest) pts =
     (let gh = (case h of
                  PDict d \<Rightarrow> (case map_of d ''gradeHistory'' of None \<Rightarrow> PNone | Some v \<Rightarrow> v)
                | _ \<Rightarrow> PNone)
      in case gh of
           PDict g \<Rightarrow>
             (case map_of g ''pointsEarned'' of
                Some v \<Rightarrow> pick_loop rest v
              | None \<Rightarrow> pick_loop rest pts)
         | _ \<Rightarrow> pick_loop rest pts)"

definition pick_latest_points :: "pyval \<Rightarrow> pyval" where
  "pick_latest_points hist =
     (case hist of
        PList xs \<Rightarrow> if xs = [] then PNone else pick_loop xs PNone
      | _ \<Rightarrow> PNone)"

text \<open>
  The picker in the words of the specification: an entry qualifies when it wraps a
  \<^verbatim>\<open>gradeHistory\<close> record that contains the key \<^verbatim>\<open>pointsEarned\<close>, whatever its value;
  the result is the value of the last qualifying entry, absent when there is none.
\<close>

definition grade_points :: "pyval \<Rightarrow> pyval option" where
  "grade_points h =
     (case h of
        PDict d \<Rightarrow>
          (case map_of d ''gradeHistory'' of
             Some (PDict g) \<Rightarrow> map_of g ''pointsEarned''
           | _ \<Rightarrow> None)
      | _ \<Rightarrow> None)"

definition spec_latest_grade :: "pyval list \<Rightarrow> pyval" where
  "spec_latest_grade hist =
     (case rev (List.map_filter grade_points hist) of [] \<Rightarrow> PNone | v # _ \<Rightarrow> v)"

section \<open>Tables\<close>

text \<open>
  A pandas \<^verbatim>\<open>DataFrame\<close>: the column labels in order (a label may occur twice, after a
  \<^verbatim>\<open>rename\<close>), and the rows, each a list of cells in the order of the labels. Cells hold
  the Python values as they are; the re-typing of a whole column that pandas applies (an
  \<^verbatim>\<open>int\<close> becoming the equal \<^verbatim>\<open>float\<close>) is not modelled.
\<close>

record frame =
  columns :: "string list"
  rows :: "pyval list list"

subsection \<open>\<^verbatim>\<open>pandas.json_normalize\<close>\<close>

text \<open>
  \<^verbatim>\<open>json_normalize\<close> flattens every record: a key whose value is a dict is replaced by
  the keys of that dict, prefixed with the path and joined by \<^verbatim>\<open>.\<close>; the keys that hold
  no dict come first, in their order. Lists are kept as cells. The model covers records
  whose keys are not empty and hold no \<^verbatim>\<open>.\<close> themselves (so that no two paths collide);
  for other keys it answers \<open>Not_modelled\<close>.
\<close>

definition plain_key :: "string \<Rightarrow> bool" where
  "plain_key k = (k \<noteq> [] \<and> CHR ''.'' \<notin> set k)"

function flat_sub :: "string \<Rightarrow> pydict \<Rightarrow> error + pydict" where
  "flat_sub p [] = Inr []"
| "flat_sub p ((k, v) # rest) =
     (if \<not> plain_key k then Inl Not_modelled
      else
        (case (case v of
                 PDict s \<Rightarrow> flat_sub (p @ ''.'' @ k) s
               | _ \<Rightarrow> Inr [(p @ ''.'' @ k, v)]) of
           Inl e \<Rightarrow> Inl e
         | Inr xs \<Rightarrow> (case flat_sub p rest of Inl e \<Rightarrow> Inl e | Inr ys \<Rightarrow> Inr (xs @ ys))))"
  by pat_completeness auto
termination
  by (relation "measure (\<lambda>(p, items). size_list (size_prod (\<lambda>_. 0) size) items)") auto

fun flat_nested :: "pydict \<Rightarrow> error + pydict" where
  "flat_nested [] = Inr []"
| "flat_nested ((k, v) # rest) =
     (if \<not> plain_key k then Inl Not_modelled
      else
        (case (case v of PDict s \<Rightarrow> flat_sub k s | _ \<Rightarrow> Inr []) of
           Inl e \<Rightarrow> Inl e
         | Inr xs \<Rightarrow> (case flat_nested rest of Inl e \<Rightarrow> Inl e | Inr ys \<Rightarrow> Inr (xs @ ys))))"

definition nested_to_record :: "pydict \<Rightarrow> error + pydict" where
  "nested_to_record d =
     (case flat_nested d of
        Inl e \<Rightarrow> Inl e
      | Inr nested \<Rightarrow> Inr (filter (\<lambda>(k, v). \<not> is_dict v) d @ nested))"

text \<open>
  The records of a table are JSON objects. pandas also builds tables from other values,
  with labels that are not strings; the model answers \<open>Not_modelled\<close> for them.
\<close>

fun flatten_records :: "pyval list \<Rightarrow> error + pydict list" where
  "flatten_records [] = Inr []"
| "flatten_records (r # rs) =
     (case r of
        PDict d \<Rightarrow>
          (case nested_to_record d of
             Inl e \<Rightarrow> Inl e
           | Inr fd \<Rightarrow> (case flatten_records rs of Inl e \<Rightarrow> Inl e | Inr frs \<Rightarrow> Inr (fd # frs)))
      | _ \<Rightarrow> Inl Not_modelled)"

text \<open>
  \<^verbatim>\<open>DataFrame(records)\<close>: the columns are the keys of the records in the order of their
  first appearance; a record without a key gets \<^verbatim>\<open>nan\<close> in that column.
\<close>

definition union_keys :: "pydict list \<Rightarrow> string list" where
  "union_keys recs =
     foldl (\<lambda>acc k. if k \<in> set acc then acc else acc @ [k]) [] (concat (map (map fst) recs))"

definition cell :: "pydict \<Rightarrow> string \<Rightarrow> pyval" where
  "cell r c = (case map_of r c of None \<Rightarrow> PNaN | Some v \<Rightarrow> v)"

definition DataFrame :: "pydict list \<Rightarrow> frame" where
  "DataFrame recs =
     \<lparr>columns = union_keys recs,
      rows = map (\<lambda>r. map (cell r) (union_keys recs)) recs\<rparr>"

text \<open>
  \<^verbatim>\<open>_pull_field\<close> of pandas, for a path given as a list and for a single key:
  \<^verbatim>\<open>result = result[field]\<close>, where a \<^verbatim>\<open>None\<close> on a list path counts as a missing key.
  With \<^verbatim>\<open>errors="ignore"\<close> a \<^verbatim>\<open>KeyError\<close> becomes \<^verbatim>\<open>nan\<close>.
\<close>

fun pull_path :: "pyval \<Rightarrow> string list \<Rightarrow> error + pyval" where
  "pull_path v [] = Inr v"
| "pull_path v (f # fs) =
     (case v of
        PNone \<Rightarrow> Inl KeyError
      | PDict d \<Rightarrow> (case map_of d f of None \<Rightarrow> Inl KeyError | Some x \<Rightarrow> pull_path x fs)
      | _ \<Rightarrow> Inl TypeError)"

definition pull_key :: "pyval \<Rightarrow> string \<Rightarrow> error + pyval" where
  "pull_key v k = (case v of PDict d \<Rightarrow> dict_item d k | _ \<Rightarrow> Inl TypeError)"

definition on_KeyError :: "bool \<Rightarrow> error + pyval \<Rightarrow> error + pyval" where
  "on_KeyError ign r = (if r = Inl KeyError \<and> ign then Inr PNaN else r)"

text \<open>
  \<^verbatim>\<open>_pull_records\<close>: the value under the record path must be a list; \<^verbatim>\<open>None\<close> and
  \<^verbatim>\<open>nan\<close> count as the empty list, a missing key raises \<^verbatim>\<open>KeyError\<close> whatever
  \<^verbatim>\<open>errors\<close> says, any other value raises \<^verbatim>\<open>TypeError\<close>.
\<close>

definition pull_records :: "pyval \<Rightarrow> string \<Rightarrow> error + pyval list" where
  "pull_records obj k =
     (case pull_key obj k of
        Inl e \<Rightarrow> Inl e
      | Inr (PList xs) \<Rightarrow> Inr xs
      | Inr PNone \<Rightarrow> Inr []
      | Inr PNaN \<Rightarrow> Inr []
      | Inr _ \<Rightarrow> Inl TypeError)"

definition join_sep :: "string list \<Rightarrow> string" where
  "join_sep val = (case val of [] \<Rightarrow> [] | f # fs \<Rightarrow> foldl (\<lambda>acc g. acc @ ''.'' @ g) f fs)"

definition append_meta :: "string \<Rightarrow> pyval \<Rightarrow> (string \<times> pyval list) list
    \<Rightarrow> (string \<times> pyval list) list" where
  "append_meta k x mv =
     (case map_of mv k of None \<Rightarrow> mv @ [(k, [x])] | Some xs \<Rightarrow> AList.update k (xs @ [x]) mv)"

text \<open>
  The state of \<^verbatim>\<open>_recursive_extract\<close>: the flattened records so far, the number of
  records of every parent object, the metadata values of every parent object, and the
  metadata seen on the way down.
\<close>

record extract_state =
  records :: "pydict list"
  lengths :: "nat list"
  meta_vals :: "(string \<times> pyval list) list"
  seen_meta :: pydict

text \<open>
  At the last level of the record path, the metadata of the parent object \<^verbatim>\<open>obj\<close>: a
  metadata path shorter than the level is read from what was seen on the way down; any
  other path \<^verbatim>\<open>val\<close> is read from \<^verbatim>\<open>obj\<close> itself, as \<^verbatim>\<open>val[level:]\<close>. pandas does not
  compare the first \<^verbatim>\<open>level\<close> parts of \<^verbatim>\<open>val\<close> with the record path.
\<close>

fun leaf_metas :: "bool \<Rightarrow> nat \<Rightarrow> pyval \<Rightarrow> pydict \<Rightarrow> string list list
    \<Rightarrow> (string \<times> pyval list) list \<Rightarrow> error + (string \<times> pyval list) list" where
  "leaf_metas ign level obj seen [] mv = Inr mv"
| "leaf_metas ign level obj seen (val # vals) mv =
     (case (if length val < level + 1 then dict_item seen (join_sep val)
            else on_KeyError ign (pull_path obj (drop level val))) of
        Inl e \<Rightarrow> Inl e
      | Inr x \<Rightarrow> leaf_metas ign level obj seen vals (append_meta (join_sep val) x mv))"

text \<open>Above the last level: a metadata path of length \<^verbatim>\<open>level + 1\<close> is read now.\<close>

fun see_metas :: "bool \<Rightarrow> nat \<Rightarrow> pyval \<Rightarrow> string list list \<Rightarrow> pydict \<Rightarrow> error + pydict" where
  "see_metas ign level obj [] seen = Inr seen"
| "see_metas ign level obj (val # vals) seen =
     (if level + 1 = length val
      then (case on_KeyError ign (pull_key obj (last val)) of
              Inl e \<Rightarrow> Inl e
            | Inr x \<Rightarrow> see_metas ign level obj vals (AList.update (join_sep val) x seen))
      else see_metas ign level obj vals seen)"

text \<open>
  \<^verbatim>\<open>for obj in data\<close>, after a dict has been wrapped into a list: a string yields its
  characters, a value that cannot be iterated raises \<^verbatim>\<open>TypeError\<close>.
\<close>

definition as_objs :: "pyval \<Rightarrow> error + pyval list" where
  "as_objs data =
     (case data of
        PList xs \<Rightarrow> Inr xs
      | PDict d \<Rightarrow> Inr [PDict d]
      | PStr s \<Rightarrow> Inr (map (\<lambda>c. PStr [c]) s)
      | _ \<Rightarrow> Inl TypeError)"

fun recursive_extract :: "string list list \<Rightarrow> bool \<Rightarrow> string list \<Rightarrow> nat \<Rightarrow> pyval list
    \<Rightarrow> extract_state \<Rightarrow> error + extract_state" where
  "recursive_extract metas ign path level [] st = Inr st"
| "recursive_extract metas ign [] level (obj # objs) st = Inl IndexError"
| "recursive_extract metas ign [p] level (obj # objs) st =
     (case pull_records obj p of
        Inl e \<Rightarrow> Inl e
      | Inr recs \<Rightarrow>
     (case flatten_records recs of
        Inl e \<Rightarrow> Inl e
      | Inr frecs \<Rightarrow>
     (case leaf_metas ign level obj (seen_meta st) metas (meta_vals st) of
        Inl e \<Rightarrow> Inl e
      | Inr mv \<Rightarrow>
          recursive_extract metas ign [p] level objs
            (st\<lparr>records := records st @ frecs, lengths := lengths st @ [length recs],
                meta_vals := mv\<rparr>))))"
| "recursive_extract metas ign (p # q # ps) level (obj # objs) st =
     (case see_metas ign level obj metas (seen_meta st) of
        Inl e \<Rightarrow> Inl e
      | Inr seen \<Rightarrow>
     (case pull_key obj p of
        Inl e \<Rightarrow> Inl e
      | Inr sub \<Rightarrow>
     (case as_objs sub of
        Inl e \<Rightarrow> Inl e
      | Inr data \<Rightarrow>
     (case recursive_extract metas ign (q # ps) (Suc level) data (st\<lparr>seen_meta := seen\<rparr>) of
        Inl e \<Rightarrow> Inl e
      | Inr st' \<Rightarrow> recursive_extract metas ign (p # q # ps) level objs st'))))"

text \<open>
  The metadata columns are appended after the record columns, every value repeated once
  per record of its parent object; a metadata label that is already a column raises
  \<^verbatim>\<open>ValueError\<close>.
\<close>

fun add_meta_columns :: "(string \<times> pyval list) list \<Rightarrow> nat list \<Rightarrow> frame \<Rightarrow> error + frame" where
  "add_meta_columns [] lens fr = Inr fr"
| "add_meta_columns ((k, v) # mvs) lens fr =
     (if k \<in> set (columns fr) then Inl ValueError
      else if length v \<noteq> length lens then Inl ValueError
      else add_meta_columns mvs lens
             \<lparr>columns = columns fr @ [k],
              rows = map (\<lambda>(r, c). r @ [c])
                       (zip (rows fr) (concat (map (\<lambda>(n, x). replicate n x) (zip lens v))))\<rparr>)"

text \<open>
  \<^verbatim>\<open>json_normalize(data, record_path=..., meta=..., sep=".", errors=...)\<close>, where
  \<open>ign\<close> stands for \<^verbatim>\<open>errors="ignore"\<close>, and \<^verbatim>\<open>json_normalize(data)\<close> without a
  record path.
\<close>

definition json_normalize :: "pyval list \<Rightarrow> string list \<Rightarrow> string list list \<Rightarrow> bool
    \<Rightarrow> error + frame" where
  "json_normalize data record_path meta ign =
     (if data = [] then Inr \<lparr>columns = [], rows = []\<rparr>
      else
        (case recursive_extract meta ign record_path 0 data
                \<lparr>records = [], lengths = [], meta_vals = [], seen_meta = []\<rparr> of
           Inl e \<Rightarrow> Inl e
         | Inr st \<Rightarrow> add_meta_columns (meta_vals st) (lengths st) (DataFrame (records st))))"

definition json_normalize_plain :: "pyval list \<Rightarrow> error + frame" where
  "json_normalize_plain data =
     (if data = [] then Inr \<lparr>columns = [], rows = []\<rparr>
      else ebind (flatten_records data) (\<lambda>recs. Inr (DataFrame recs)))"

subsection \<open>Columns and rows\<close>

definition rename :: "(string \<times> string) list \<Rightarrow> frame \<Rightarrow> frame" where
  "rename m fr =
     fr\<lparr>columns := map (\<lambda>c. case map_of m c of None \<Rightarrow> c | Some c' \<Rightarrow> c') (columns fr)\<rparr>"

text \<open>The rows as \<^verbatim>\<open>Series\<close>: labels with cells.\<close>

definition row_series :: "frame \<Rightarrow> pydict list" where
  "row_series df = map (\<lambda>r. zip (columns df) r) (rows df)"

text \<open>
  \<^verbatim>\<open>df[c]\<close> raises \<^verbatim>\<open>KeyError\<close> for a label that is no column. For a label that occurs
  twice pandas yields a table instead of a column; the script reads no such label, and the
  model answers \<open>Not_modelled\<close>.
\<close>

definition getitem :: "frame \<Rightarrow> string \<Rightarrow> error + pyval list" where
  "getitem df c =
     (if c \<notin> set (columns df) then Inl KeyError
      else if count_list (columns df) c \<noteq> 1 then Inl Not_modelled
      else Inr (map (\<lambda>r. series_get r c PNaN) (row_series df)))"

definition index_of :: "string \<Rightarrow> string list \<Rightarrow> nat" where
  "index_of c cols = length (takeWhile (\<lambda>x. x \<noteq> c) cols)"

text \<open>\<^verbatim>\<open>df[c] = vals\<close>: a new label is appended as the last column.\<close>

definition setitem :: "frame \<Rightarrow> string \<Rightarrow> pyval list \<Rightarrow> error + frame" where
  "setitem df c vals =
     (if length vals \<noteq> length (rows df) then Inl ValueError
      else if c \<notin> set (columns df)
        then Inr \<lparr>columns = columns df @ [c],
                  rows = map (\<lambda>(r, v). r @ [v]) (zip (rows df) vals)\<rparr>
      else if count_list (columns df) c \<noteq> 1 then Inl Not_modelled
      else Inr (df\<lparr>rows := map (\<lambda>(r, v). r[index_of c (columns df) := v])
                              (zip (rows df) vals)\<rparr>))"

text \<open>
  \<^verbatim>\<open>Series.map(f)\<close> and \<^verbatim>\<open>DataFrame.apply(f, axis=1)\<close> call \<^verbatim>\<open>f\<close> on the cells, or on
  the rows, in order; the first exception ends the run.
\<close>

fun map_cells :: "(pyval \<Rightarrow> error + pyval) \<Rightarrow> pyval list \<Rightarrow> error + pyval list" where
  "map_cells f [] = Inr []"
| "map_cells f (v # vs) =
     (case f v of
        Inl e \<Rightarrow> Inl e
      | Inr w \<Rightarrow> (case map_cells f vs of Inl e \<Rightarrow> Inl e | Inr ws \<Rightarrow> Inr (w # ws)))"

fun apply_rows :: "(pydict \<Rightarrow> error + pyval) \<Rightarrow> pydict list \<Rightarrow> error + pyval list" where
  "apply_rows f [] = Inr []"
| "apply_rows f (r # rs) =
     (case f r of
        Inl e \<Rightarrow> Inl e
      | Inr w \<Rightarrow> (case apply_rows f rs of Inl e \<Rightarrow> Inl e | Inr ws \<Rightarrow> Inr (w # ws)))"

text \<open>\<^verbatim>\<open>df[c] = df[c].map(f)\<close>.\<close>

definition map_column :: "(pyval \<Rightarrow> error + pyval) \<Rightarrow> string \<Rightarrow> frame \<Rightarrow> error + frame" where
  "map_column f c df =
     ebind (getitem df c) (\<lambda>cells. ebind (map_cells f cells) (\<lambda>cells'. setitem df c cells'))"

text \<open>\<^verbatim>\<open>df[[c for c in keep if c in df.columns]]\<close>: every column with a label of the list.\<close>

definition select_columns :: "string list \<Rightarrow> frame \<Rightarrow> frame" where
  "select_columns keep df =
     (let pos = concat (map (\<lambda>c. filter (\<lambda>i. columns df ! i = c) [0 ..< length (columns df)]) keep)
      in \<lparr>columns = map (\<lambda>i. columns df ! i) pos,
          rows = map (\<lambda>r. map (\<lambda>i. r ! i) pos) (rows df)\<rparr>)"

subsection \<open>\<^verbatim>\<open>df_to_docs\<close>\<close>

text \<open>
  Script lines 28 to 32: an empty table gives no documents; otherwise \<^verbatim>\<open>nan\<close> cells
  become \<^verbatim>\<open>None\<close> and every row becomes a dict, where of two columns with one label the
  later one wins.
\<close>

definition nan_to_none :: "pyval \<Rightarrow> pyval" where
  "nan_to_none v = (if v = PNaN then PNone else v)"

definition dict_of :: "(string \<times> pyval) list \<Rightarrow> pydict" where
  "dict_of ps = foldl (\<lambda>d (k, v). AList.update k v d) [] ps"

definition df_to_docs :: "frame \<Rightarrow> pydict list" where
  "df_to_docs df =
     (if rows df = [] \<or> columns df = [] then []
      else map (\<lambda>r. dict_of (zip (columns df) (map nan_to_none r))) (rows df))"

section \<open>The five tables of the script\<close>

text \<open>
  Every table is modelled from the list \<^verbatim>\<open>courses_raw\<close> on its own, as the statements of
  the script that build it (the script builds them one after the other, so an exception
  in one table ends the run before the next).
\<close>

text \<open>Courses, script lines 47 to 49 and 50 to 51.\<close>

definition courses_table :: "pyval list \<Rightarrow> error + frame" where
  "courses_table courses_raw =
     ebind (json_normalize_plain courses_raw) (\<lambda>df47.
     ebind (getitem df47 ''course_info'') (\<lambda>info.
     ebind (json_normalize_plain info) (\<lambda>df48.
       Inr (rename [(''id'', ''courseId'')] df48))))"

definition courses_df :: "py_env \<Rightarrow> pyval list \<Rightarrow> error + frame" where
  "courses_df env courses_raw =
     ebind (courses_table courses_raw) (\<lambda>df.
     ebind (map_column (to_dt env) ''creationTime'' df) (\<lambda>df50.
       map_column (to_dt env) ''updateTime'' df50))"

text \<open>Students and teachers, script lines 54 to 69.\<close>

definition students_df :: "pyval list \<Rightarrow> error + frame" where
  "students_df courses_raw =
     map_sum id (rename [(''course_info.id'', ''courseId'')])
       (json_normalize courses_raw [''students''] [[''course_info'', ''id'']] False)"

definition teachers_df :: "pyval list \<Rightarrow> error + frame" where
  "teachers_df courses_raw =
     map_sum id (rename [(''course_info.id'', ''courseId'')])
       (json_normalize courses_raw [''teachers''] [[''course_info'', ''id'']] False)"

text \<open>
  Assignments, script lines 72 to 78, and 81 to 85. On a table without rows
  \<^verbatim>\<open>apply\<close> returns a copy of the table, which line 81 can store as a column only when it
  has exactly one column.
\<close>

definition assignments_df :: "pyval list \<Rightarrow> error + frame" where
  "assignments_df courses_raw =
     map_sum id (rename [(''course_info.id'', ''courseId''), (''id'', ''assignmentId'')])
       (json_normalize courses_raw [''assignments''] [[''course_info'', ''id'']] False)"

definition due_of_row :: "py_env \<Rightarrow> pydict \<Rightarrow> error + pyval" where
  "due_of_row env r =
     to_dt env (PDict [(''dueDate'', series_get r ''dueDate'' PNone),
                       (''dueTime'', series_get r ''dueTime'' PNone)])"

definition due_step :: "py_env \<Rightarrow> frame \<Rightarrow> error + frame" where
  "due_step env df =
     (if rows df = []
        then (if length (columns df) = 1 then setitem df ''dueDateTime'' [] else Inl ValueError)
      else if 1 < count_list (columns df) ''dueDate'' \<or> 1 < count_list (columns df) ''dueTime''
        then Inl Not_modelled
      else ebind (apply_rows (due_of_row env) (row_series df)) (setitem df ''dueDateTime''))"

definition assignments_final :: "py_env \<Rightarrow> pyval list \<Rightarrow> error + frame" where
  "assignments_final env courses_raw =
     ebind (assignments_df courses_raw) (\<lambda>df.
     ebind (due_step env df) (\<lambda>df81.
     ebind (map_column (to_dt env) ''creationTime'' df81) (\<lambda>df84.
       map_column (to_dt env) ''updateTime'' df84)))"

text \<open>Submissions, script lines 88 to 104, 107 to 144, and 145 to 153.\<close>

definition submissions_df :: "pyval list \<Rightarrow> error + frame" where
  "submissions_df courses_raw =
     map_sum id (rename [(''course_info.id'', ''courseId''), (''assignments.id'', ''assignmentId''),
                  (''assignments.title'', ''assignmentTitle''), (''id'', ''submissionId'')])
       (json_normalize courses_raw [''assignments'', ''submissions'']
          [[''course_info'', ''id''], [''assignments'', ''id''], [''assignments'', ''title'']] True)"

definition parse_if_present :: "py_env \<Rightarrow> string \<Rightarrow> frame \<Rightarrow> error + frame" where
  "parse_if_present env c df =
     (if c \<in> set (columns df) then map_column (to_dt env) c df else Inr df)"

definition attachments_step :: "frame \<Rightarrow> error + frame" where
  "attachments_step df =
     (if 1 < count_list (columns df) ''assignmentSubmission.attachments'' then Inl Not_modelled
      else ebind (apply_rows extract_attachments (row_series df)) (setitem df ''attachments''))"

definition points_step :: "frame \<Rightarrow> error + frame" where
  "points_step df =
     ebind (getitem df ''submissionHistory'') (\<lambda>hist.
       setitem df ''pointsEarned_latest'' (map pick_latest_points hist))"

text \<open>
  Script line 145, \<^verbatim>\<open>df["late"] = df.get("late", False).fillna(False)\<close>: without a column
  \<^verbatim>\<open>late\<close>, \<^verbatim>\<open>get\<close> returns the \<^verbatim>\<open>bool\<close> \<^verbatim>\<open>False\<close>, which has no method
  \<^verbatim>\<open>fillna\<close>; with it, \<^verbatim>\<open>fillna\<close> replaces \<^verbatim>\<open>None\<close> and \<^verbatim>\<open>nan\<close>.
\<close>

definition fillna_False :: "pyval \<Rightarrow> pyval" where
  "fillna_False v = (if v = PNone \<or> v = PNaN then PBool False else v)"

definition late_step :: "frame \<Rightarrow> error + frame" where
  "late_step df =
     (if ''late'' \<notin> set (columns df) then Inl AttributeError
      else ebind (getitem df ''late'') (\<lambda>cells. setitem df ''late'' (map fillna_False cells)))"

definition keep_sub_cols :: "string list" where
  "keep_sub_cols =
     [''submissionId'', ''courseId'', ''assignmentId'', ''assignmentTitle'', ''userId'',
      ''state'', ''creationTime'', ''updateTime'', ''late'', ''draftGrade'',
      ''pointsEarned_latest'', ''attachments'', ''alternateLink'']"

definition submissions_parsed :: "py_env \<Rightarrow> pyval list \<Rightarrow> error + frame" where
  "submissions_parsed env courses_raw =
     ebind (submissions_df courses_raw) (\<lambda>df.
     ebind (parse_if_present env ''creationTime'' df) (\<lambda>df1.
     ebind (parse_if_present env ''updateTime'' df1) (\<lambda>df2.
     ebind (attachments_step df2) points_step)))"

definition submissions_final :: "py_env \<Rightarrow> pyval list \<Rightarrow> error + frame" where
  "submissions_final env courses_raw =
     ebind (submissions_parsed env courses_raw) (\<lambda>df144.
     ebind (late_step df144) (\<lambda>df145.
       Inr (select_columns keep_sub_cols df145)))"

section \<open>Notions used in the results\<close>

text \<open>The documents that \<^verbatim>\<open>upsert\<close> writes for a table, when the table could be built.\<close>

definition docs_of :: "error + frame \<Rightarrow> error + pydict list" where
  "docs_of r = map_sum id df_to_docs r"

text \<open>
  The records of a course block under a key, and the identifier of its course, as the
  specification speaks of them.
\<close>

definition sub_records :: "string \<Rightarrow> pyval \<Rightarrow> pyval list" where
  "sub_records key b = (case pull_records b key of Inl e \<Rightarrow> [] | Inr recs \<Rightarrow> recs)"

definition course_id_of :: "pyval \<Rightarrow> pyval" where
  "course_id_of b = (case pull_path b [''course_info'', ''id''] of Inl e \<Rightarrow> PNone | Inr x \<Rightarrow> x)"

text \<open>
  What one course block gives to a table with a one-level record path and the metadata
  \<^verbatim>\<open>course_info.id\<close>: its flattened records and its course identifier; and the table
  made of these.
\<close>

definition block_result :: "string \<Rightarrow> pyval \<Rightarrow> error + (pydict list \<times> pyval)" where
  "block_result key b =
     (case pull_records b key of
        Inl e \<Rightarrow> Inl e
      | Inr recs \<Rightarrow>
     (case flatten_records recs of
        Inl e \<Rightarrow> Inl e
      | Inr frecs \<Rightarrow>
     (case pull_path b [''course_info'', ''id''] of
        Inl e \<Rightarrow> Inl e
      | Inr x \<Rightarrow> Inr (frecs, x))))"

fun blocks_results :: "string \<Rightarrow> pyval list \<Rightarrow> error + (pydict list \<times> pyval) list" where
  "blocks_results key [] = Inr []"
| "blocks_results key (b # bs) =
     (case block_result key b of
        Inl e \<Rightarrow> Inl e
      | Inr r \<Rightarrow> (case blocks_results key bs of Inl e \<Rightarrow> Inl e | Inr rs \<Rightarrow> Inr (r # rs)))"

definition table_of :: "(pydict list \<times> pyval) list \<Rightarrow> error + frame" where
  "table_of rs =
     (if ''course_info.id'' \<in> set (union_keys (concat (map fst rs))) then Inl ValueError
      else Inr \<lparr>columns = union_keys (concat (map fst rs)) @ [''course_info.id''],
                rows = map (\<lambda>(r, c). r @ [c])
                  (zip (rows (DataFrame (concat (map fst rs))))
                       (concat (map (\<lambda>(frecs, x). replicate (length frecs) x) rs)))\<rparr>)"

text \<open>
  A string that the parser reads as a date-time without UTC offset; a cell that is no such
  string; a column without such cells, where a label that cannot be read as a column
  counts as one; and the outcome of building a table whose columns \<^verbatim>\<open>creationTime\<close> and
  \<^verbatim>\<open>updateTime\<close>, the two that the script hands to \<^verbatim>\<open>to_dt\<close>, are without such cells.
\<close>

definition naive :: "py_env \<Rightarrow> string \<Rightarrow> bool" where
  "naive env s = (case fromisoformat env (replace_Z s) of Some (dt, None) \<Rightarrow> True | _ \<Rightarrow> False)"

definition str_ok :: "py_env \<Rightarrow> pyval \<Rightarrow> bool" where
  "str_ok env v = (case v of PStr s \<Rightarrow> \<not> naive env s | _ \<Rightarrow> True)"

definition column_zone_free :: "py_env \<Rightarrow> string \<Rightarrow> frame \<Rightarrow> bool" where
  "column_zone_free env c df =
     (case getitem df c of Inl e \<Rightarrow> True | Inr cells \<Rightarrow> list_all (str_ok env) cells)"

definition times_zone_free :: "py_env \<Rightarrow> error + frame \<Rightarrow> bool" where
  "times_zone_free env r =
     (case r of
        Inl e \<Rightarrow> True
      | Inr df \<Rightarrow> column_zone_free env ''creationTime'' df
                 \<and> column_zone_free env ''updateTime'' df)"

section \<open>Example snapshots\<close>

text \<open>
  One course block with two students, one teacher and one assignment with three
  submissions, in the shape the export writes: the roster and submission records carry
  their own \<^verbatim>\<open>courseId\<close>, and no submission is late (the API leaves out a \<^verbatim>\<open>late\<close>
  that is false).
\<close>

definition example_submission :: "string \<Rightarrow> string \<Rightarrow> pyval \<Rightarrow> pyval" where
  "example_submission sid uid pts =
     PDict [(''courseId'', PStr ''c1''), (''courseWorkId'', PStr ''a1''), (''id'', PStr sid),
            (''userId'', PStr uid), (''state'', PStr ''TURNED_IN''),
            (''creationTime'', PStr ''2025-08-30T19:27:44.005Z''),
            (''submissionHistory'',
               PList [PDict [(''gradeHistory'', PDict [(''pointsEarned'', pts)])]])]"

definition example_course :: "pyval list \<Rightarrow> pyval" where
  "example_course submissions =
     PDict [(''course_info'',
               PDict [(''id'', PStr ''c1''), (''name'', PStr ''Algebra''),
                      (''creationTime'', PStr ''2025-08-30T19:27:44.005Z''),
                      (''updateTime'', PStr ''2025-08-30T19:27:44.005Z'')]),
            (''students'',
               PList [PDict [(''courseId'', PStr ''c1''), (''userId'', PStr ''u1'')],
                      PDict [(''courseId'', PStr ''c1''), (''userId'', PStr ''u2'')]]),
            (''teachers'', PList [PDict [(''courseId'', PStr ''c1''), (''userId'', PStr ''t1'')]]),
            (''assignments'',
               PList [PDict [(''courseId'', PStr ''c1''), (''id'', PStr ''a1''),
                             (''title'', PStr ''Homework''),
                             (''creationTime'', PStr ''2025-08-30T19:27:44.005Z''),
                             (''updateTime'', PStr ''2025-08-30T19:27:44.005Z''),
                             (''dueDate'', PDict [(''year'', PInt 2025), (''month'', PInt 9),
                                                  (''day'', PInt 1)]),
                             (''submissions'', PList submissions)]]),
            (''announcements'', PList [])]"

definition spec_snapshot :: "pyval list" where
  "spec_snapshot =
     [example_course [example_submission ''s1'' ''u1'' (PInt 9),
                      example_submission ''s2'' ''u2'' (PInt 7),
                      example_submission ''s3'' ''u3'' PNone]]"

text \<open>A course block that has no key \<^verbatim>\<open>students\<close>.\<close>

definition block_without_students :: pyval where
  "block_without_students =
     PDict [(''course_info'', PDict [(''id'', PStr ''c1'')]),
            (''teachers'', PList []), (''assignments'', PList [])]"

text \<open>
  A snapshot with one submission that is late and whose \<^verbatim>\<open>creationTime\<close> is the given
  string.
\<close>

definition late_snapshot :: "string \<Rightarrow> pyval list" where
  "late_snapshot created =
     [PDict [(''course_info'', PDict [(''id'', PStr ''c1'')]),
             (''students'', PList []), (''teachers'', PList []),
             (''assignments'',
                PList [PDict [(''id'', PStr ''a1''), (''title'', PStr ''Homework''),
                              (''submissions'',
                                 PList [PDict [(''id'', PStr ''s1''), (''userId'', PStr ''u1''),
                                               (''late'', PBool True),
                                               (''creationTime'', PStr created),
                                               (''submissionHistory'', PList [])]])]])]]"

text \<open>
  The same snapshot with a \<^verbatim>\<open>creationTime\<close> that ends in \<^verbatim>\<open>Z\<close> and the given title of
  the assignment.
\<close>

definition dated_title_snapshot :: "string \<Rightarrow> pyval list" where
  "dated_title_snapshot title =
     [PDict [(''course_info'', PDict [(''id'', PStr ''c1'')]),
             (''students'', PList []), (''teachers'', PList []),
             (''assignments'',
                PList [PDict [(''id'', PStr ''a1''), (''title'', PStr title),
                              (''submissions'',
                                 PList [PDict [(''id'', PStr ''s1''), (''userId'', PStr ''u1''),
                                               (''late'', PBool True),
                                               (''creationTime'', PStr ''2025-08-30T19:27:44Z''),
                                               (''submissionHistory'', PList [])]])]])]]"

text \<open>A course block whose lists are empty or null.\<close>

definition empty_block :: pydict where
  "empty_block =
     [(''course_info'', PDict [(''id'', PStr ''c2'')]),
      (''students'', PList []), (''teachers'', PNone), (''assignments'', PList [])]"

text \<open>Three submissions: one late, one without the field, one on time.\<close>

definition mixed_late_snapshot :: "pyval list" where
  "mixed_late_snapshot =
     [PDict [(''course_info'', PDict [(''id'', PStr ''c1'')]),
             (''students'', PList []), (''teachers'', PList []),
             (''assignments'',
                PList [PDict [(''id'', PStr ''a1''), (''title'', PStr ''Homework''),
                              (''submissions'',
                                 PList [PDict [(''id'', PStr ''s1''), (''late'', PBool True),
                                               (''submissionHistory'', PList [])],
                                        PDict [(''id'', PStr ''s2''),
                                               (''submissionHistory'', PList [])],
                                        PDict [(''id'', PStr ''s3''), (''late'', PBool False),
                                               (''submissionHistory'', PList [])]])]])]]"


section \<open>The timestamp unifier\<close>

lemmas date_simps = mk_datetime_def fits_c_int_def valid_date_def days_in_month_def
  is_leap_def DAYS_IN_MONTH_def

lemmas shift_simps = sub_offset_def to_microseconds_def of_microseconds_def ymd2ord_def
  ord2ymd_def days_before_year_def days_before_month_def DAYS_BEFORE_MONTH_def
  DAYS_IN_MONTH_def is_leap_def US_PER_DAY_def MAXORDINAL_def DI400Y_def DI100Y_def
  DI4Y_def Let_def

text \<open>
  Claim C2. \<^verbatim>\<open>to_dt\<close> maps \<^verbatim>\<open>"2025-08-30T19:27:44.005Z"\<close> to the UTC instant
  2025-08-30 19:27:44.005, the structured date 2025-09-01 to midnight UTC of that day, the
  same date with the time 14:30 to 14:30 UTC, hours and minutes that are missing from
  \<^verbatim>\<open>dueTime\<close> to 0, and \<^verbatim>\<open>None\<close> and \<^verbatim>\<open>"not-a-date"\<close> to absent. The two facts about
  the library parser that the string cases rest on are the hypotheses: it reads the first
  string (with \<^verbatim>\<open>Z\<close> replaced) as that time at offset zero, and refuses the second.
\<close>

theorem to_dt_examples:
  assumes iso: "fromisoformat env ''2025-08-30T19:27:44.005+00:00''
      = Some (\<lparr>year = 2025, month = 8, day = 30, hour = 19, minute = 27, second = 44,
                microsecond = 5000\<rparr>, Some 0)"
    and bad: "fromisoformat env ''not-a-date'' = None"
  shows "to_dt env (PStr ''2025-08-30T19:27:44.005Z'')
      = Inr (PDatetime \<lparr>year = 2025, month = 8, day = 30, hour = 19, minute = 27,
                        second = 44, microsecond = 5000\<rparr>)
    \<and> to_dt env (PDict [(''dueDate'',
          PDict [(''year'', PInt 2025), (''month'', PInt 9), (''day'', PInt 1)])])
      = Inr (PDatetime \<lparr>year = 2025, month = 9, day = 1, hour = 0, minute = 0,
                        second = 0, microsecond = 0\<rparr>)
    \<and> to_dt env (PDict [(''dueDate'',
          PDict [(''year'', PInt 2025), (''month'', PInt 9), (''day'', PInt 1)]),
          (''dueTime'', PDict [(''hours'', PInt 14), (''minutes'', PInt 30)])])
      = Inr (PDatetime \<lparr>year = 2025, month = 9, day = 1, hour = 14, minute = 30,
                        second = 0, microsecond = 0\<rparr>)
    \<and> to_dt env (PDict [(''dueDate'',
          PDict [(''year'', PInt 2025), (''month'', PInt 9), (''day'', PInt 1)]),
          (''dueTime'', PDict [(''hours'', PInt 14)])])
      = Inr (PDatetime \<lparr>year = 2025, month = 9, day = 1, hour = 14, minute = 0,
                        second = 0, microsecond = 0\<rparr>)
    \<and> to_dt env (PDict [(''dueDate'',
          PDict [(''year'', PInt 2025), (''month'', PInt 9), (''day'', PInt 1)]),
          (''dueTime'', PDict [(''minutes'', PInt 30)])])
      = Inr (PDatetime \<lparr>year = 2025, month = 9, day = 1, hour = 0, minute = 30,
                        second = 0, microsecond = 0\<rparr>)
    \<and> to_dt env PNone = Inr PNone
    \<and> to_dt env (PStr ''not-a-date'') = Inr PNone"
proof -
  have z: "replace_Z ''2025-08-30T19:27:44.005Z'' = ''2025-08-30T19:27:44.005+00:00''"
    by (simp add: replace_Z_def)
  have n: "replace_Z ''not-a-date'' = ''not-a-date''"
    by (simp add: replace_Z_def)
  have shift: "sub_offset \<lparr>year = 2025, month = 8, day = 30, hour = 19, minute = 27,
        second = 44, microsecond = 5000\<rparr> 0
      = Some \<lparr>year = 2025, month = 8, day = 30, hour = 19, minute = 27, second = 44,
              microsecond = 5000\<rparr>"
    by (simp add: shift_simps)
  have s: "to_dt env (PStr ''2025-08-30T19:27:44.005Z'')
      = Inr (PDatetime \<lparr>year = 2025, month = 8, day = 30, hour = 19, minute = 27,
                        second = 44, microsecond = 5000\<rparr>)"
    by (simp only: to_dt.simps z iso astimezone_utc_def shift option.case prod.case)
  have b: "to_dt env (PStr ''not-a-date'') = Inr PNone"
    by (simp only: to_dt.simps n bad option.case)
  show ?thesis
    using s b by (simp add: to_dt_parts_def ebind_def dict_item_def date_simps)
qed

theorem to_dt_examples_witness:
  "fromisoformat utc_env ''2025-08-30T19:27:44.005+00:00''
      = Some (\<lparr>year = 2025, month = 8, day = 30, hour = 19, minute = 27, second = 44,
                microsecond = 5000\<rparr>, Some 0)
   \<and> fromisoformat utc_env ''not-a-date'' = None
   \<and> to_dt utc_env (PStr ''2025-08-30T19:27:44.005Z'')
      = Inr (PDatetime \<lparr>year = 2025, month = 8, day = 30, hour = 19, minute = 27,
                        second = 44, microsecond = 5000\<rparr>)
   \<and> to_dt utc_env (PStr ''not-a-date'') = Inr PNone"
proof -
  have iso: "fromisoformat utc_env ''2025-08-30T19:27:44.005+00:00''
      = Some (\<lparr>year = 2025, month = 8, day = 30, hour = 19, minute = 27, second = 44,
                microsecond = 5000\<rparr>, Some 0)"
    by code_simp
  have bad: "fromisoformat utc_env ''not-a-date'' = None"
    by code_simp
  from to_dt_examples [OF iso bad] iso bad show ?thesis by simp
qed

text \<open>
  Claim C3. The claim asks that \<^verbatim>\<open>to_dt\<close> returns absent, and never raises, for every
  input that is neither a parseable string nor a dict with the date parts, in particular
  for a dict whose \<^verbatim>\<open>dueDate\<close> is null. On the dict that script line 82 builds for an
  assignment without due date, \<^verbatim>\<open>s.get("dueDate", s)\<close> is \<^verbatim>\<open>None\<close> and its
  \<^verbatim>\<open>.keys()\<close> raises \<^verbatim>\<open>AttributeError\<close>.
\<close>

theorem to_dt_null_dueDate_raises:
  "to_dt env (PDict [(''dueDate'', PNone), (''dueTime'', PNone)]) = Inl AttributeError"
  by (simp add: ebind_def)


lemma to_dt_str_never_raises: "\<exists>r. to_dt env (PStr s) = Inr r"
  by (simp split: option.splits)

lemma to_dt_other_absent:
  "v \<noteq> PNone \<Longrightarrow> \<not> is_dict v \<Longrightarrow> (\<forall>s. v \<noteq> PStr s) \<Longrightarrow> to_dt env v = Inr PNone"
  by (cases v) simp_all

lemma days_in_month_le: "1 \<le> m \<Longrightarrow> m \<le> 12 \<Longrightarrow> days_in_month y m \<le> 31"
proof -
  assume "1 \<le> m" "m \<le> 12"
  then have "m \<in> {1, 2, 3, 4, 5, 6, 7, 8, 9, 10, 11, 12}" by simp presburger
  then show ?thesis
    by (auto simp: days_in_month_def DAYS_IN_MONTH_def)
qed

lemma mk_datetime_midnight:
  assumes "valid_date y m d"
  shows "mk_datetime y m d 0 0 = Inr \<lparr>year = y, month = m, day = d, hour = 0, minute = 0,
           second = 0, microsecond = 0\<rparr>"
proof -
  from assms have "1 \<le> m" "m \<le> 12" "1 \<le> d" "d \<le> days_in_month y m" "1 \<le> y" "y \<le> 9999"
    by (simp_all add: valid_date_def)
  moreover from this have "d \<le> 31" using days_in_month_le [of m y] by simp
  ultimately have "fits_c_int y \<and> fits_c_int m \<and> fits_c_int d"
    by (simp add: fits_c_int_def)
  with assms show ?thesis by (simp add: mk_datetime_def fits_c_int_def)
qed

lemma map_of_Some_key: "map_of s k = Some v \<Longrightarrow> k \<in> set (map fst s)"
  by (metis map_of_eq_None_iff option.distinct(1) set_map)

text \<open>
  Counterexample to claim C10. The claim says that in the bare form the time parts are
  always 0. A dict that holds the date parts itself is also the dict that line 23 asks
  for \<^verbatim>\<open>dueTime\<close>, so a bare dict with that key gets its hours and minutes.
\<close>

theorem bare_dict_with_dueTime_keeps_time:
  "to_dt utc_env (PDict [(''year'', PInt 2025), (''month'', PInt 9), (''day'', PInt 1),
       (''dueTime'', PDict [(''hours'', PInt 14), (''minutes'', PInt 30)])])
   = Inr (PDatetime \<lparr>year = 2025, month = 9, day = 1, hour = 14, minute = 30, second = 0,
            microsecond = 0\<rparr>)"
  by (simp add: to_dt_parts_def ebind_def dict_item_def date_simps)

text \<open>
  Claim C10, amended. A dict that holds the date parts itself, without the keys
  \<^verbatim>\<open>dueDate\<close> and \<^verbatim>\<open>dueTime\<close>, gives that date at 00:00 UTC whatever else it holds:
  hours and minutes are read from \<^verbatim>\<open>dueTime\<close> only, so \<^verbatim>\<open>hours\<close> and \<^verbatim>\<open>minutes\<close> in
  the dict are ignored.
\<close>

theorem to_dt_bare_dict:
  assumes "map_of s ''dueDate'' = None" and "map_of s ''dueTime'' = None"
    and "map_of s ''year'' = Some yv" and "py_int yv = Inr y"
    and "map_of s ''month'' = Some mv" and "py_int mv = Inr m"
    and "map_of s ''day'' = Some dv" and "py_int dv = Inr d"
    and "valid_date y m d"
  shows "to_dt env (PDict s) = Inr (PDatetime \<lparr>year = y, month = m, day = d, hour = 0,
           minute = 0, second = 0, microsecond = 0\<rparr>)"
proof -
  have keys: "{''year'', ''month'', ''day''} \<subseteq> set (map fst s)"
    using assms(3,5,7) by (auto dest!: map_of_Some_key)
  have parts: "to_dt_parts s s = Inr (PDatetime \<lparr>year = y, month = m, day = d, hour = 0,
           minute = 0, second = 0, microsecond = 0\<rparr>)"
    using assms by (simp add: to_dt_parts_def ebind_def dict_item_def mk_datetime_midnight)
  show ?thesis
    using keys parts assms(1) by (simp add: ebind_def)
qed

theorem to_dt_bare_dict_witness:
  "to_dt utc_env (PDict [(''year'', PInt 2025), (''month'', PInt 9), (''day'', PInt 1),
       (''hours'', PInt 14), (''minutes'', PInt 30)])
   = Inr (PDatetime \<lparr>year = 2025, month = 9, day = 1, hour = 0, minute = 0, second = 0,
            microsecond = 0\<rparr>)"
  by (rule to_dt_bare_dict [where yv = "PInt 2025" and mv = "PInt 9" and dv = "PInt 1"])
     (simp_all add: valid_date_def days_in_month_def DAYS_IN_MONTH_def is_leap_def)

text \<open>
  In general a bare dict is read as the wrapper form made of its own date parts and its
  own \<^verbatim>\<open>dueTime\<close>, hours and minutes included.
\<close>

lemma to_dt_bare_as_wrapper:
  assumes "map_of s ''dueDate'' = None"
    and "map_of s ''year'' = Some yv" and "map_of s ''month'' = Some mv"
    and "map_of s ''day'' = Some dv"
  shows "to_dt env (PDict s)
    = to_dt env (PDict [(''dueDate'', PDict [(''year'', yv), (''month'', mv), (''day'', dv)]),
        (''dueTime'', case map_of s ''dueTime'' of None \<Rightarrow> PDict [] | Some t \<Rightarrow> t)])"
proof -
  have keys: "{''year'', ''month'', ''day''} \<subseteq> set (map fst s)"
    using assms(2,3,4) by (auto dest!: map_of_Some_key)
  with assms show ?thesis
    by (simp add: ebind_def to_dt_parts_def dict_item_def split: option.splits)
qed

text \<open>
  The strings that \<^verbatim>\<open>int\<close> accepts as date parts: spaces around the number are dropped,
  a separator character is not, and a number of more than 4300 digits is refused.
\<close>

lemma int_of_str_examples:
  "py_int (PStr '' 2025 '') = Inr 2025
   \<and> py_int (PStr ''+2_025'') = Inr 2025
   \<and> py_int (PStr ''-7'') = Inr (- 7)
   \<and> py_int (PStr [char_of (28 :: nat), CHR ''2'', CHR ''0'', CHR ''2'', CHR ''5''])
       = Inl ValueError
   \<and> py_int (PStr [char_of (160 :: nat), CHR ''9'']) = Inr 9
   \<and> py_int (PStr ''2_'') = Inl ValueError
   \<and> py_int (PStr ''14.0'') = Inl ValueError"
  by code_simp

lemma digits_value_limit:
  "int_max_str_digits < length (filter is_digit cs) \<Longrightarrow> digits_value cs = Inl ValueError"
  by (simp add: digits_value_def split: option.splits)

section \<open>The attachment extractor\<close>

lemma py_get_Inr_is_dict: "py_get v k dflt = Inr r \<Longrightarrow> is_dict v"
  by (cases v) simp_all

text \<open>
  Whenever the loop goes on after an entry, it has appended a descriptor for it: the test
  \<^verbatim>\<open>isinstance(inner, dict)\<close> of line 121 cannot fail, since \<^verbatim>\<open>df\<close> is a dict by then.
\<close>

lemma attach_loop_Cons_Inr:
  assumes "attach_loop (att # rest) out = Inr out'"
  shows "\<exists>i. attach_loop rest (out @ [descriptor i]) = Inr out'"
proof -
  let ?df = "\<lambda>g. if truthy g then g else PDict []"
  from assms obtain g where g: "py_get att ''driveFile'' PNone = Inr g"
    by (cases "py_get att ''driveFile'' PNone") (simp_all add: ebind_def)
  from assms g obtain g2 where g2: "py_get (?df g) ''driveFile'' PNone = Inr g2"
    by (cases "py_get (?df g) ''driveFile'' PNone") (simp_all add: ebind_def Let_def)
  have "is_dict (?df g)" using g2 by (rule py_get_Inr_is_dict)
  then have "is_dict (if is_dict g2 then g2 else ?df g)" by simp
  then obtain i where i: "(if is_dict g2 then g2 else ?df g) = PDict i"
    by (cases "if is_dict g2 then g2 else ?df g") simp_all
  from assms g g2 i have "attach_loop rest (out @ [descriptor i]) = Inr out'"
    by (simp add: ebind_def Let_def)
  then show ?thesis ..
qed

lemma attach_loop_length:
  "attach_loop xs out = Inr out' \<Longrightarrow> length out' = length out + length xs"
proof (induction xs arbitrary: out)
  case Nil
  then show ?case by simp
next
  case (Cons att rest)
  from attach_loop_Cons_Inr [OF Cons.prems] obtain i
    where "attach_loop rest (out @ [descriptor i]) = Inr out'" ..
  from Cons.IH [OF this] show ?case by simp
qed

lemma extract_attachments_drive_file:
  "extract_attachments
     [(''assignmentSubmission.attachments'',
       PList [PDict [(''driveFile'', PDict [(''id'', PStr ''a1''), (''title'', PStr ''t''),
          (''alternateLink'', PStr ''l''), (''thumbnailUrl'', PStr ''th'')])]])]
   = Inr (PList [PDict [(''id'', PStr ''a1''), (''title'', PStr ''t''), (''link'', PStr ''l''),
                        (''thumb'', PStr ''th'')]])"
  by (simp add: extract_attachments_def series_get_def ebind_def descriptor_def)

lemma extract_attachments_nested_drive_file:
  "extract_attachments
     [(''assignmentSubmission.attachments'',
       PList [PDict [(''driveFile'', PDict [(''driveFile'',
          PDict [(''id'', PStr ''a1''), (''title'', PStr ''t''),
                 (''alternateLink'', PStr ''l''), (''thumbnailUrl'', PStr ''th'')])])]])]
   = Inr (PList [PDict [(''id'', PStr ''a1''), (''title'', PStr ''t''), (''link'', PStr ''l''),
                        (''thumb'', PStr ''th'')]])"
  by (simp add: extract_attachments_def series_get_def ebind_def descriptor_def)

text \<open>
  Claim C4. The claim asks that an entry without a drive-file payload contributes no
  descriptor. For an attachment that is a link, \<^verbatim>\<open>att.get("driveFile") or {}\<close> is the
  empty dict, which passes the test of line 121, and the entry contributes a descriptor
  whose four fields are \<^verbatim>\<open>None\<close>.
\<close>

theorem extract_attachments_keeps_link_entry:
  "extract_attachments
     [(''assignmentSubmission.attachments'',
       PList [PDict [(''link'', PDict [(''url'', PStr ''u''), (''title'', PStr ''t'')])]])]
   = Inr (PList [PDict [(''id'', PNone), (''title'', PNone), (''link'', PNone),
                        (''thumb'', PNone)]])"
  by (simp add: extract_attachments_def series_get_def ebind_def descriptor_def)

text \<open>
  Claim C5. The claim asks for absent whenever the entries of the list contribute no
  descriptor, as the entries of a list without any drive file should. For a list of a
  video and a form the code returns two descriptors whose fields are \<^verbatim>\<open>None\<close>, so the
  \<^verbatim>\<open>out or None\<close> of line 128 does not turn the result into absent.
\<close>

theorem extract_attachments_without_drive_file:
  "extract_attachments
     [(''assignmentSubmission.attachments'',
       PList [PDict [(''youTubeVideo'', PDict [(''id'', PStr ''y1''), (''title'', PStr ''v'')])],
              PDict [(''form'', PDict [(''formUrl'', PStr ''f''), (''title'', PStr ''q'')])]])]
   = Inr (PList [PDict [(''id'', PNone), (''title'', PNone), (''link'', PNone),
                        (''thumb'', PNone)],
                 PDict [(''id'', PNone), (''title'', PNone), (''link'', PNone),
                        (''thumb'', PNone)]])"
  by (simp add: extract_attachments_def series_get_def ebind_def descriptor_def)

text \<open>
  What holds of the claim: a cell that is absent or no list, and the empty list, give
  absent, and the result is never an empty list. But the empty list is the only list
  that gives absent: a list with entries gives as many descriptors as it has entries, or
  raises, as it does for an entry that is no dict.
\<close>

lemma extract_attachments_absent_cases:
  "(\<not> is_list (series_get row ''assignmentSubmission.attachments'' PNone)
      \<longrightarrow> extract_attachments row = Inr PNone)
   \<and> (series_get row ''assignmentSubmission.attachments'' PNone = PList []
      \<longrightarrow> extract_attachments row = Inr PNone)
   \<and> extract_attachments row \<noteq> Inr (PList [])"
  by (cases "series_get row ''assignmentSubmission.attachments'' PNone")
     (auto simp: extract_attachments_def ebind_def split: sum.splits)

lemma extract_attachments_absent_examples:
  "extract_attachments [] = Inr PNone
   \<and> extract_attachments [(''assignmentSubmission.attachments'', PNaN)] = Inr PNone
   \<and> extract_attachments [(''assignmentSubmission.attachments'', PStr ''x'')] = Inr PNone
   \<and> extract_attachments [(''assignmentSubmission.attachments'', PList [])] = Inr PNone"
  by (simp add: extract_attachments_def series_get_def ebind_def)

lemma extract_attachments_of_entries:
  assumes "series_get row ''assignmentSubmission.attachments'' PNone = PList (att # rest)"
  shows "(\<exists>e. extract_attachments row = Inl e)
    \<or> (\<exists>out. extract_attachments row = Inr (PList out) \<and> length out = Suc (length rest))"
proof (cases "attach_loop (att # rest) []")
  case (Inl e)
  with assms show ?thesis by (simp add: extract_attachments_def ebind_def)
next
  case (Inr out)
  from attach_loop_length [OF Inr] have "length out = Suc (length rest)" by simp
  moreover from this have "out \<noteq> []" by auto
  ultimately show ?thesis using assms Inr by (simp add: extract_attachments_def ebind_def)
qed

lemma extract_attachments_entry_not_dict:
  "extract_attachments [(''assignmentSubmission.attachments'', PList [PNone])]
     = Inl AttributeError
   \<and> extract_attachments [(''assignmentSubmission.attachments'', PList [PStr ''x''])]
     = Inl AttributeError"
  by (simp add: extract_attachments_def series_get_def ebind_def)

section \<open>The latest-grade picker\<close>

lemma pick_loop_step:
  "pick_loop (h # rest) pts = pick_loop rest (case grade_points h of None \<Rightarrow> pts | Some v \<Rightarrow> v)"
  by (simp add: grade_points_def split: pyval.splits option.splits)

lemma pick_loop_spec:
  "pick_loop hist pts = (case rev (List.map_filter grade_points hist) of [] \<Rightarrow> pts | v # _ \<Rightarrow> v)"
proof (induction hist arbitrary: pts)
  case Nil
  show ?case by simp
next
  case (Cons h rest)
  show ?case
    unfolding pick_loop_step Cons.IH
    by (cases "grade_points h"; cases "rev (List.map_filter grade_points rest)") simp_all
qed

text \<open>
  Claim C6. On a list, \<^verbatim>\<open>pick_latest_points\<close> returns the \<^verbatim>\<open>pointsEarned\<close> value of the
  last entry whose \<^verbatim>\<open>gradeHistory\<close> record contains that key, so a zero or a null
  overwrites an earlier value; it returns absent for every other input, for the empty list
  and when no entry qualifies. The history of the specification yields 9.
\<close>

theorem pick_latest_points_last_wins:
  "pick_latest_points v = (case v of PList hist \<Rightarrow> spec_latest_grade hist | _ \<Rightarrow> PNone)
   \<and> pick_latest_points (PList
        [PDict [(''gradeHistory'', PDict [(''pointsEarned'', PInt 5)])],
         PDict [(''gradeHistory'', PDict [(''other'', PInt 1)])],
         PDict [(''gradeHistory'', PDict [(''pointsEarned'', PInt 9)])]]) = PInt 9
   \<and> pick_latest_points (PList
        [PDict [(''gradeHistory'', PDict [(''pointsEarned'', PInt 5)])],
         PDict [(''gradeHistory'', PDict [(''pointsEarned'', PInt 0)])]]) = PInt 0
   \<and> pick_latest_points (PList
        [PDict [(''gradeHistory'', PDict [(''pointsEarned'', PInt 5)])],
         PDict [(''gradeHistory'', PDict [(''pointsEarned'', PNone)])]]) = PNone
   \<and> pick_latest_points (PList []) = PNone
   \<and> pick_latest_points (PList [PDict [(''gradeHistory'', PDict [(''other'', PInt 1)])]]) = PNone
   \<and> pick_latest_points PNone = PNone
   \<and> pick_latest_points PNaN = PNone"
proof -
  have "pick_latest_points v = (case v of PList hist \<Rightarrow> spec_latest_grade hist | _ \<Rightarrow> PNone)"
    by (cases v) (simp_all add: pick_latest_points_def spec_latest_grade_def pick_loop_spec)
  then show ?thesis
    by (simp add: pick_latest_points_def)
qed

section \<open>Tables with a one-level record path\<close>

text \<open>
  For the student, teacher and assignment tables \<^verbatim>\<open>json_normalize\<close> has a closed
  form: every course block gives its flattened records and its course identifier, in
  order, and the first block that fails ends the run.
\<close>

lemma flatten_records_length: "flatten_records recs = Inr frecs \<Longrightarrow> length frecs = length recs"
  by (induction recs arbitrary: frecs) (auto split: pyval.splits sum.splits)

lemma blocks_results_length: "blocks_results key bs = Inr rs \<Longrightarrow> length rs = length bs"
  by (induction bs arbitrary: rs) (auto split: sum.splits)

lemma blocks_results_append:
  "blocks_results key (xs @ ys) =
     (case blocks_results key xs of
        Inl e \<Rightarrow> Inl e
      | Inr r1 \<Rightarrow> (case blocks_results key ys of Inl e \<Rightarrow> Inl e | Inr r2 \<Rightarrow> Inr (r1 @ r2)))"
  by (induction xs) (simp_all split: sum.splits)

lemma leaf_metas_course_id:
  "leaf_metas False 0 obj seen [[''course_info'', ''id'']] mv =
     (case pull_path obj [''course_info'', ''id''] of
        Inl e \<Rightarrow> Inl e
      | Inr x \<Rightarrow> Inr (append_meta ''course_info.id'' x mv))"
  by (simp add: on_KeyError_def join_sep_def split: sum.splits)

lemma extract_step:
  "recursive_extract [[''course_info'', ''id'']] False [key] 0 (obj # objs) st =
     (case block_result key obj of
        Inl e \<Rightarrow> Inl e
      | Inr (frecs, x) \<Rightarrow>
          recursive_extract [[''course_info'', ''id'']] False [key] 0 objs
            (st\<lparr>records := records st @ frecs, lengths := lengths st @ [length frecs],
                meta_vals := append_meta ''course_info.id'' x (meta_vals st)\<rparr>))"
  by (auto simp: block_result_def leaf_metas_course_id flatten_records_length
      simp del: leaf_metas.simps pull_path.simps split: sum.splits)

lemma extract_closed_form:
  "recursive_extract [[''course_info'', ''id'']] False [key] 0 objs st =
     (case blocks_results key objs of
        Inl e \<Rightarrow> Inl e
      | Inr rs \<Rightarrow>
          Inr (st\<lparr>records := records st @ concat (map fst rs),
                  lengths := lengths st @ map (length \<circ> fst) rs,
                  meta_vals := foldl (\<lambda>mv x. append_meta ''course_info.id'' x mv)
                                 (meta_vals st) (map snd rs)\<rparr>))"
proof (induction objs arbitrary: st)
  case Nil
  show ?case by simp
next
  case (Cons obj objs)
  show ?case
    unfolding extract_step Cons.IH
    by (simp split: sum.splits prod.splits)
qed

lemma foldl_append_meta:
  "foldl (\<lambda>mv x. append_meta k x mv) [(k, vs)] xs = [(k, vs @ xs)]"
  by (induction xs arbitrary: vs) (simp_all add: append_meta_def)

lemma foldl_append_meta_Nil:
  assumes "xs \<noteq> []"
  shows "foldl (\<lambda>mv x. append_meta k x mv) [] xs = [(k, xs)]"
proof -
  from assms obtain a list where xs: "xs = a # list" by (cases xs) auto
  have "append_meta k a [] = [(k, [a])]" by (simp add: append_meta_def)
  with xs show ?thesis by (simp add: foldl_append_meta)
qed

lemma zip_lengths_values:
  "concat (map (\<lambda>(n, x). replicate n x) (zip (map (length \<circ> fst) rs) (map snd rs)))
     = concat (map (\<lambda>(frecs, x). replicate (length frecs) x) rs)"
  by (induction rs) auto

lemma json_normalize_closed_form:
  assumes "data \<noteq> []"
  shows "json_normalize data [key] [[''course_info'', ''id'']] False =
     (case blocks_results key data of Inl e \<Rightarrow> Inl e | Inr rs \<Rightarrow> table_of rs)"
proof (cases "blocks_results key data")
  case (Inl e)
  with assms show ?thesis by (simp add: json_normalize_def extract_closed_form)
next
  case (Inr rs)
  from blocks_results_length [OF Inr] assms have "rs \<noteq> []" by auto
  then have "map snd rs \<noteq> []" by simp
  from foldl_append_meta_Nil [OF this] Inr assms show ?thesis
    by (simp add: json_normalize_def extract_closed_form table_of_def DataFrame_def
        zip_lengths_values)
qed

subsection \<open>Every record carries the identifier of its course\<close>

lemma blocks_results_blocks:
  "blocks_results key raw = Inr rs \<Longrightarrow>
     map (\<lambda>(frecs, x). (length frecs, x)) rs
       = map (\<lambda>b. (length (sub_records key b), course_id_of b)) raw"
proof (induction raw arbitrary: rs)
  case Nil
  then show ?case by simp
next
  case (Cons b raw)
  from Cons.prems obtain frecs x rs' where b: "block_result key b = Inr (frecs, x)"
    and rs': "blocks_results key raw = Inr rs'" and rs: "rs = (frecs, x) # rs'"
    by (auto split: sum.splits)
  from b have "length (sub_records key b) = length frecs" "course_id_of b = x"
    by (auto simp: block_result_def sub_records_def course_id_of_def
        dest: flatten_records_length split: sum.splits)
  with Cons.IH [OF rs'] rs show ?case by simp
qed

lemma dict_of_snoc: "dict_of (ps @ [(k, v)]) = AList.update k v (dict_of ps)"
  by (simp add: dict_of_def)

lemma map_of_dict_of_last:
  "length ks = length vs \<Longrightarrow> map_of (dict_of (zip (ks @ [k]) (vs @ [v]))) k = Some v"
  by (simp add: dict_of_snoc update_conv')

lemma meta_column_length:
  "length (concat (map (\<lambda>(frecs, x). replicate (length frecs) x) rs))
     = length (concat (map fst rs))"
  by (induction rs) auto

lemma table_docs_course_ids:
  assumes "table_of rs = Inr fr" and "map_of m ''course_info.id'' = Some ''courseId''"
  shows "map (\<lambda>d. map_of d ''courseId'') (df_to_docs (rename m fr))
       = concat (map (\<lambda>(frecs, x). replicate (length frecs) (Some (nan_to_none x))) rs)"
proof -
  let ?R = "concat (map fst rs)"
  let ?cols = "union_keys ?R"
  let ?ren = "\<lambda>c. case map_of m c of None \<Rightarrow> c | Some c' \<Rightarrow> c'"
  let ?meta = "concat (map (\<lambda>(frecs, x). replicate (length frecs) x) rs)"
  let ?cells = "map (\<lambda>r. map (cell r) ?cols) ?R"
  from assms(1) have fr: "fr = \<lparr>columns = ?cols @ [''course_info.id''],
       rows = map (\<lambda>(r, c). r @ [c]) (zip ?cells ?meta)\<rparr>"
    by (simp add: table_of_def DataFrame_def split: if_splits)
  have len: "length ?cells = length ?meta" by (simp add: meta_column_length)
  have one: "map_of (dict_of (zip (map ?ren (?cols @ [''course_info.id'']))
                 (map nan_to_none (r @ [c])))) ''courseId'' = Some (nan_to_none c)"
    if "r \<in> set ?cells" for r c
  proof -
    from that have "length (map ?ren ?cols) = length (map nan_to_none r)" by auto
    from map_of_dict_of_last [OF this] assms(2) show ?thesis by simp
  qed
  have "map (\<lambda>d. map_of d ''courseId'') (df_to_docs (rename m fr))
      = map (\<lambda>(r, c). Some (nan_to_none c)) (zip ?cells ?meta)"
    using one by (auto simp: fr rename_def df_to_docs_def dest: set_zip_leftD)
  also have "\<dots> = map (\<lambda>c. Some (nan_to_none c)) (map snd (zip ?cells ?meta))"
    by (simp add: case_prod_unfold)
  also have "\<dots> = map (\<lambda>c. Some (nan_to_none c)) ?meta"
    using len by simp
  also have "\<dots> = concat (map (\<lambda>(frecs, x). replicate (length frecs) (Some (nan_to_none x))) rs)"
    by (induction rs) auto
  finally show ?thesis .
qed

lemma roster_records_carry_parent_course:
  assumes "json_normalize raw [key] [[''course_info'', ''id'']] False = Inr fr"
    and "map_of m ''course_info.id'' = Some ''courseId''"
  shows "map (\<lambda>d. map_of d ''courseId'') (df_to_docs (rename m fr))
       = concat (map (\<lambda>b. replicate (length (sub_records key b))
                              (Some (nan_to_none (course_id_of b)))) raw)"
proof (cases "raw = []")
  case True
  with assms(1) have "fr = \<lparr>columns = [], rows = []\<rparr>" by (simp add: json_normalize_def)
  with True show ?thesis by (simp add: rename_def df_to_docs_def)
next
  case False
  with assms(1) obtain rs where rs: "blocks_results key raw = Inr rs" and t: "table_of rs = Inr fr"
    by (auto simp: json_normalize_closed_form split: sum.splits)
  have "concat (map (\<lambda>(frecs, x). replicate (length frecs) (Some (nan_to_none x))) rs)
      = concat (map (\<lambda>(n, x). replicate n (Some (nan_to_none x)))
          (map (\<lambda>(frecs, x). (length frecs, x)) rs))"
    by (simp add: case_prod_unfold comp_def)
  also have "\<dots> = concat (map (\<lambda>b. replicate (length (sub_records key b))
                              (Some (nan_to_none (course_id_of b)))) raw)"
    unfolding blocks_results_blocks [OF rs] by (simp add: comp_def)
  finally show ?thesis using table_docs_course_ids [OF t assms(2)] by simp
qed

text \<open>
  Whenever the student, teacher or assignment table is built, its documents are, block by
  block, one per record of the block, and each carries the \<^verbatim>\<open>course_info.id\<close> of its
  block as \<^verbatim>\<open>courseId\<close>.
\<close>

lemma students_carry_parent_course:
  "students_df raw = Inr fr \<Longrightarrow>
     map (\<lambda>d. map_of d ''courseId'') (df_to_docs fr)
       = concat (map (\<lambda>b. replicate (length (sub_records ''students'' b))
                              (Some (nan_to_none (course_id_of b)))) raw)"
  by (auto simp: students_df_def map_sum_def split: sum.splits
      intro!: roster_records_carry_parent_course)

lemma teachers_carry_parent_course:
  "teachers_df raw = Inr fr \<Longrightarrow>
     map (\<lambda>d. map_of d ''courseId'') (df_to_docs fr)
       = concat (map (\<lambda>b. replicate (length (sub_records ''teachers'' b))
                              (Some (nan_to_none (course_id_of b)))) raw)"
  by (auto simp: teachers_df_def map_sum_def split: sum.splits
      intro!: roster_records_carry_parent_course)

lemma assignments_carry_parent_course:
  "assignments_df raw = Inr fr \<Longrightarrow>
     map (\<lambda>d. map_of d ''courseId'') (df_to_docs fr)
       = concat (map (\<lambda>b. replicate (length (sub_records ''assignments'' b))
                              (Some (nan_to_none (course_id_of b)))) raw)"
  by (auto simp: assignments_df_def map_sum_def split: sum.splits
      intro!: roster_records_carry_parent_course)

section \<open>The courses table\<close>

text \<open>
  A flattened record holds no dict, so a column \<^verbatim>\<open>course_info\<close> of the table of line 47
  holds no dict either, and line 48 cannot build a table from it: for a \<^verbatim>\<open>course_info\<close>
  that is a dict there is no such column at all.
\<close>

lemma flat_sub_no_dict:
  "flat_sub p d = Inr xs \<Longrightarrow> (k, v) \<in> set xs \<Longrightarrow> \<not> is_dict v"
proof (induction p d arbitrary: xs rule: flat_sub.induct)
  case (1 p)
  then show ?case by simp
next
  case (2 p k' v' rest)
  from "2.prems"(1) have pk: "plain_key k'"
    by (simp split: if_splits)
  from "2.prems"(1) pk obtain xs1 ys where
    xs1: "(case v' of PDict s \<Rightarrow> flat_sub (p @ ''.'' @ k') s | _ \<Rightarrow> Inr [(p @ ''.'' @ k', v')])
            = Inr xs1"
    and ys: "flat_sub p rest = Inr ys" and xs: "xs = xs1 @ ys"
    by (auto split: sum.splits)
  from "2.prems"(2) xs consider "(k, v) \<in> set xs1" | "(k, v) \<in> set ys" by auto
  then show ?case
  proof cases
    case 1
    show ?thesis
    proof (cases v')
      case (PDict s)
      with xs1 have "flat_sub (p @ ''.'' @ k') s = Inr xs1" by simp
      from "2.IH"(1) [OF _ PDict this 1] pk show ?thesis by simp
    qed (use xs1 1 in auto)
  next
    case 2
    from "2.IH"(2) [OF _ xs1 ys 2] pk show ?thesis by simp
  qed
qed

lemma flat_nested_no_dict:
  "flat_nested d = Inr xs \<Longrightarrow> (k, v) \<in> set xs \<Longrightarrow> \<not> is_dict v"
proof (induction d arbitrary: xs)
  case Nil
  then show ?case by simp
next
  case (Cons kv rest)
  obtain k' v' where kv: "kv = (k', v')" by (cases kv)
  from Cons.prems(1) kv obtain xs1 ys where
    xs1: "(case v' of PDict s \<Rightarrow> flat_sub k' s | _ \<Rightarrow> Inr []) = Inr xs1"
    and ys: "flat_nested rest = Inr ys" and xs: "xs = xs1 @ ys"
    by (auto split: sum.splits if_splits)
  from Cons.prems(2) xs consider "(k, v) \<in> set xs1" | "(k, v) \<in> set ys" by auto
  then show ?case
  proof cases
    case 1
    with xs1 show ?thesis
      by (cases v') (auto dest: flat_sub_no_dict)
  next
    case 2
    from Cons.IH [OF ys 2] show ?thesis .
  qed
qed

lemma nested_to_record_no_dict:
  "nested_to_record d = Inr fd \<Longrightarrow> (k, v) \<in> set fd \<Longrightarrow> \<not> is_dict v"
  by (auto simp: nested_to_record_def split: sum.splits dest: flat_nested_no_dict)

lemma flatten_records_no_dict:
  "flatten_records recs = Inr frecs \<Longrightarrow> r \<in> set frecs \<Longrightarrow> (k, v) \<in> set r \<Longrightarrow> \<not> is_dict v"
  by (induction recs arbitrary: frecs)
     (auto split: pyval.splits sum.splits dest: nested_to_record_no_dict)

lemma cell_no_dict: "(\<And>k v. (k, v) \<in> set r \<Longrightarrow> \<not> is_dict v) \<Longrightarrow> \<not> is_dict (cell r c)"
  by (auto simp: cell_def split: option.splits dest!: map_of_SomeD)

lemma series_get_zip:
  "series_get (zip cols r) c PNaN = v \<Longrightarrow> v = PNaN \<or> v \<in> set r"
  by (auto simp: series_get_def split: option.splits dest!: map_of_SomeD set_zip_rightD)

lemma getitem_cells:
  assumes "getitem df c = Inr cells" and "v \<in> set cells"
  shows "v = PNaN \<or> (\<exists>r \<in> set (rows df). v \<in> set r)"
proof -
  from assms(1) have "cells = map (\<lambda>r. series_get r c PNaN) (row_series df)"
    by (simp add: getitem_def split: if_splits)
  with assms(2) obtain r where "r \<in> set (rows df)" "v = series_get (zip (columns df) r) c PNaN"
    by (auto simp: row_series_def)
  then show ?thesis using series_get_zip by blast
qed

lemma getitem_length: "getitem df c = Inr cells \<Longrightarrow> length cells = length (rows df)"
  by (auto simp: getitem_def row_series_def split: if_splits)

lemma getitem_DataFrame_no_dict:
  assumes "flatten_records recs = Inr frecs" and "getitem (DataFrame frecs) c = Inr cells"
    and "v \<in> set cells"
  shows "\<not> is_dict v"
proof -
  from getitem_cells [OF assms(2,3)] consider "v = PNaN"
    | r where "r \<in> set (rows (DataFrame frecs))" "v \<in> set r" by blast
  then show ?thesis
  proof cases
    case 1
    then show ?thesis by simp
  next
    case 2
    then obtain fr c' where "fr \<in> set frecs" "v = cell fr c'"
      by (auto simp: DataFrame_def)
    with flatten_records_no_dict [OF assms(1)] cell_no_dict show ?thesis by blast
  qed
qed

lemma flatten_records_head: "\<not> is_dict v \<Longrightarrow> flatten_records (v # vs) = Inl Not_modelled"
  by (cases v) simp_all

lemma courses_table_never_built: "isl (courses_table raw)"
proof (cases "raw = []")
  case True
  then show ?thesis
    by (simp add: courses_table_def json_normalize_plain_def ebind_def getitem_def)
next
  case False
  show ?thesis
  proof (cases "flatten_records raw")
    case (Inl e)
    with False show ?thesis
      by (simp add: courses_table_def json_normalize_plain_def ebind_def)
  next
    case (Inr frecs)
    from flatten_records_length [OF Inr] False have ne: "frecs \<noteq> []" by auto
    show ?thesis
    proof (cases "getitem (DataFrame frecs) ''course_info''")
      case (Inl e)
      with False Inr show ?thesis
        by (simp add: courses_table_def json_normalize_plain_def ebind_def)
    next
      case info: (Inr cells)
      from getitem_length [OF info] ne have "cells \<noteq> []" by (auto simp: DataFrame_def)
      then obtain v vs where cells: "cells = v # vs" by (cases cells) auto
      with getitem_DataFrame_no_dict [OF Inr info, of v] have "\<not> is_dict v" by simp
      from flatten_records_head [OF this] cells False Inr info show ?thesis
        by (simp add: courses_table_def json_normalize_plain_def ebind_def)
    qed
  qed
qed

lemma courses_df_never_built: "isl (courses_df env raw)"
  using courses_table_never_built [of raw]
  by (cases "courses_table raw") (simp_all add: courses_df_def ebind_def)

text \<open>
  Flattening fails only on records that the model does not cover, and \<^verbatim>\<open>df[c]\<close> beyond
  that only with \<^verbatim>\<open>KeyError\<close>. So for every snapshot the courses table ends in the
  \<^verbatim>\<open>KeyError\<close> of line 48, or the snapshot is one the model does not cover (a course block
  that is no JSON object, a key that is empty or holds a dot, or a \<^verbatim>\<open>course_info\<close> that
  is no object).
\<close>

lemma flat_sub_error: "flat_sub p d = Inl e \<Longrightarrow> e = Not_modelled"
proof (induction p d arbitrary: e rule: flat_sub.induct)
  case (1 p)
  then show ?case by simp
next
  case (2 p k v rest)
  show ?case
  proof (cases "plain_key k")
    case False
    with "2.prems" show ?thesis by simp
  next
    case True
    show ?thesis
    proof (cases "case v of PDict s \<Rightarrow> flat_sub (p @ ''.'' @ k) s | _ \<Rightarrow> Inr [(p @ ''.'' @ k, v)]")
      case (Inl e')
      with "2.prems" True have e: "e' = e" by simp
      from Inl obtain s where v: "v = PDict s" and s: "flat_sub (p @ ''.'' @ k) s = Inl e'"
        by (cases v) simp_all
      from "2.IH"(1) [OF _ v s] True e show ?thesis by simp
    next
      case (Inr xs)
      with "2.prems" True have "flat_sub p rest = Inl e"
        by (simp split: sum.splits)
      from "2.IH"(2) [OF _ Inr this] True show ?thesis by simp
    qed
  qed
qed

lemma flat_nested_error: "flat_nested d = Inl e \<Longrightarrow> e = Not_modelled"
proof (induction d)
  case Nil
  then show ?case by simp
next
  case (Cons kv rest)
  obtain k v where kv: "kv = (k, v)" by (cases kv)
  with Cons show ?case
    by (cases v) (auto split: if_splits sum.splits dest: flat_sub_error)
qed

lemma nested_to_record_error: "nested_to_record d = Inl e \<Longrightarrow> e = Not_modelled"
  by (auto simp: nested_to_record_def split: sum.splits dest: flat_nested_error)

lemma flatten_records_error: "flatten_records recs = Inl e \<Longrightarrow> e = Not_modelled"
  by (induction recs) (auto split: pyval.splits sum.splits dest: nested_to_record_error)

lemma getitem_error: "getitem df c = Inl e \<Longrightarrow> e = KeyError \<or> e = Not_modelled"
  by (auto simp: getitem_def split: if_splits)

lemma courses_table_outcome:
  "courses_table raw = Inl KeyError \<or> courses_table raw = Inl Not_modelled"
proof (cases "raw = []")
  case True
  then show ?thesis
    by (simp add: courses_table_def json_normalize_plain_def ebind_def getitem_def)
next
  case False
  show ?thesis
  proof (cases "flatten_records raw")
    case (Inl e)
    with False flatten_records_error [OF Inl] show ?thesis
      by (simp add: courses_table_def json_normalize_plain_def ebind_def)
  next
    case (Inr frecs)
    from flatten_records_length [OF Inr] False have ne: "frecs \<noteq> []" by auto
    show ?thesis
    proof (cases "getitem (DataFrame frecs) ''course_info''")
      case (Inl e)
      with False Inr getitem_error [OF Inl] show ?thesis
        by (auto simp: courses_table_def json_normalize_plain_def ebind_def)
    next
      case info: (Inr cells)
      from getitem_length [OF info] ne have "cells \<noteq> []" by (auto simp: DataFrame_def)
      then obtain v vs where cells: "cells = v # vs" by (cases cells) auto
      with getitem_DataFrame_no_dict [OF Inr info, of v] have "\<not> is_dict v" by simp
      from flatten_records_head [OF this] cells False Inr info show ?thesis
        by (simp add: courses_table_def json_normalize_plain_def ebind_def)
    qed
  qed
qed

lemma courses_df_outcome:
  "courses_df env raw = Inl KeyError \<or> courses_df env raw = Inl Not_modelled"
  using courses_table_outcome [of raw] by (auto simp: courses_df_def ebind_def)

section \<open>The tables on the example of the specification\<close>

text \<open>
  Claim C1. The claim asks for exactly 1 course, 2 student, 1 teacher, 1 assignment and 3
  submission records on the example, each with the identifier of its parent course, and
  the submissions with that of their parent assignment too. On the example the student,
  teacher and assignment tables have 2, 1 and 1 records with \<^verbatim>\<open>courseId\<close> \<^verbatim>\<open>c1\<close>.
  The courses table raises \<^verbatim>\<open>KeyError\<close> at line 48, because line 47 has flattened
  \<^verbatim>\<open>course_info\<close> away; and the three submission records carry \<^verbatim>\<open>a1\<close>, the identifier
  of the assignment, as their \<^verbatim>\<open>courseId\<close>: under the two-level record path the metadata
  path \<^verbatim>\<open>["course_info", "id"]\<close> is read from the assignment, as \<^verbatim>\<open>["id"]\<close>.
\<close>

theorem flattener_example_records:
  "courses_df utc_env spec_snapshot = Inl KeyError
   \<and> map_sum id (map (\<lambda>d. map_of d ''courseId'') \<circ> df_to_docs) (students_df spec_snapshot)
       = Inr [Some (PStr ''c1''), Some (PStr ''c1'')]
   \<and> map_sum id (map (\<lambda>d. map_of d ''courseId'') \<circ> df_to_docs) (teachers_df spec_snapshot)
       = Inr [Some (PStr ''c1'')]
   \<and> map_sum id (map (\<lambda>d. (map_of d ''courseId'', map_of d ''assignmentId'')) \<circ> df_to_docs)
         (assignments_df spec_snapshot)
       = Inr [(Some (PStr ''c1''), Some (PStr ''a1''))]
   \<and> map_sum id (map (\<lambda>d. (map_of d ''courseId'', map_of d ''assignmentId'')) \<circ> df_to_docs)
         (submissions_df spec_snapshot)
       = Inr [(Some (PStr ''a1''), Some (PStr ''a1'')), (Some (PStr ''a1''), Some (PStr ''a1'')),
              (Some (PStr ''a1''), Some (PStr ''a1''))]"
  by code_simp


lemma assignments_example_raises: "assignments_final utc_env spec_snapshot = Inl AttributeError"
  by code_simp

section \<open>Empty and missing lists of a course block\<close>

text \<open>
  Counterexample to claim C7: a course block without the key \<^verbatim>\<open>students\<close> makes
  \<^verbatim>\<open>json_normalize\<close> raise \<^verbatim>\<open>KeyError\<close>, so the student table is not built.
\<close>

theorem missing_students_raises:
  "students_df [block_without_students] = Inl KeyError"
  by code_simp

lemma table_of_skip_empty:
  assumes "r1 @ r2 \<noteq> []"
  shows "table_of (r1 @ ([], x) # r2) = table_of (r1 @ r2)"
  by (simp add: table_of_def)

lemma docs_of_table_empty: "docs_of (map_sum id (rename m) (table_of [([], x)])) = Inr []"
  by (simp add: docs_of_def table_of_def union_keys_def DataFrame_def rename_def df_to_docs_def)

lemma docs_of_empty_frame:
  "docs_of (map_sum id (rename m) (json_normalize [] path metas ign)) = Inr []"
  by (simp add: docs_of_def json_normalize_def rename_def df_to_docs_def)

lemma empty_block_generic:
  assumes b: "block_result key b = Inr ([], x)"
  shows "docs_of (map_sum id (rename m)
            (json_normalize (pre @ b # post) [key] [[''course_info'', ''id'']] False))
       = docs_of (map_sum id (rename m)
            (json_normalize (pre @ post) [key] [[''course_info'', ''id'']] False))"
proof (cases "blocks_results key pre")
  case (Inl e)
  then show ?thesis
    by (cases "pre @ post = []")
       (simp_all add: json_normalize_closed_form blocks_results_append)
next
  case pre: (Inr r1)
  show ?thesis
  proof (cases "blocks_results key post")
    case (Inl e)
    with pre b show ?thesis
      by (cases "pre @ post = []")
         (simp_all add: json_normalize_closed_form blocks_results_append)
  next
    case post: (Inr r2)
    from blocks_results_length [OF pre] blocks_results_length [OF post]
    have len: "r1 @ r2 = [] \<longleftrightarrow> pre @ post = []" by auto
    show ?thesis
    proof (cases "pre @ post = []")
      case True
      then have e: "pre = []" "post = []" by simp_all
      from b have "json_normalize [b] [key] [[''course_info'', ''id'']] False = table_of [([], x)]"
        by (simp add: json_normalize_closed_form)
      with e show ?thesis
        by (simp only: append_Nil docs_of_table_empty docs_of_empty_frame)
    next
      case False
      with len have "r1 @ r2 \<noteq> []" by simp
      from table_of_skip_empty [OF this] False pre post b show ?thesis
        by (simp add: json_normalize_closed_form blocks_results_append)
    qed
  qed
qed

lemma missing_key_generic:
  assumes "pull_key b key = Inl KeyError"
  shows "isl (json_normalize (pre @ b # post) [key] [[''course_info'', ''id'']] False)"
proof -
  from assms have "block_result key b = Inl KeyError"
    by (simp add: block_result_def pull_records_def)
  then have "isl (blocks_results key (pre @ b # post))"
    by (simp add: blocks_results_append split: sum.splits)
  then show ?thesis
    by (cases "blocks_results key (pre @ b # post)") (simp_all add: json_normalize_closed_form)
qed

lemma block_result_empty:
  assumes "map_of d key = Some v" and "v = PList [] \<or> v = PNone"
    and "pull_path (PDict d) [''course_info'', ''id''] = Inr x"
  shows "block_result key (PDict d) = Inr ([], x)"
  using assms by (auto simp: block_result_def pull_records_def pull_key_def dict_item_def)

lemma extract_append:
  "recursive_extract M ign (p # q # ps) level (xs @ ys) st =
     (case recursive_extract M ign (p # q # ps) level xs st of
        Inl e \<Rightarrow> Inl e
      | Inr st' \<Rightarrow> recursive_extract M ign (p # q # ps) level ys st')"
  by (induction xs arbitrary: st) (simp_all split: sum.splits)

lemma extract_empty_assignments:
  assumes "map_of d ''assignments'' = Some (PList [])"
  shows "recursive_extract
           [[''course_info'', ''id''], [''assignments'', ''id''], [''assignments'', ''title'']]
           True [''assignments'', ''submissions''] 0 (PDict d # objs) st
       = recursive_extract
           [[''course_info'', ''id''], [''assignments'', ''id''], [''assignments'', ''title'']]
           True [''assignments'', ''submissions''] 0 objs st"
  using assms by (simp add: pull_key_def dict_item_def as_objs_def)

lemma extract_skip_empty_assignments:
  assumes "map_of d ''assignments'' = Some (PList [])"
  shows "recursive_extract
           [[''course_info'', ''id''], [''assignments'', ''id''], [''assignments'', ''title'']]
           True [''assignments'', ''submissions''] 0 (pre @ PDict d # post) st
       = recursive_extract
           [[''course_info'', ''id''], [''assignments'', ''id''], [''assignments'', ''title'']]
           True [''assignments'', ''submissions''] 0 (pre @ post) st"
  unfolding extract_append extract_empty_assignments [OF assms] ..

lemma submissions_skip_empty_assignments:
  assumes "map_of d ''assignments'' = Some (PList [])"
  shows "submissions_df (pre @ PDict d # post) = submissions_df (pre @ post)"
proof (cases "pre @ post = []")
  case True
  with assms show ?thesis
    by (simp add: submissions_df_def json_normalize_def pull_key_def dict_item_def as_objs_def
        DataFrame_def union_keys_def)
next
  case False
  then have "pre \<noteq> [] \<or> post \<noteq> []" by simp
  then show ?thesis
    by (auto simp: submissions_df_def json_normalize_def
        extract_skip_empty_assignments [OF assms])
qed

text \<open>
  Claim C7, amended. In a snapshot \<open>pre @ PDict d # post\<close>, let the course block
  \<open>d\<close> have a \<^verbatim>\<open>course_info.id\<close>. If its \<^verbatim>\<open>students\<close>, \<^verbatim>\<open>teachers\<close> or
  \<^verbatim>\<open>assignments\<close> is present and holds the empty list or null, the documents of that
  kind are those of the snapshot without the block, and so is the outcome when another
  block fails; an empty list of assignments leaves the submission table unchanged too. If
  the block lacks the key, the table of that kind is not built for the snapshot.
\<close>

theorem empty_subcollection_contributes_nothing:
  assumes "pull_path (PDict d) [''course_info'', ''id''] = Inr x"
  shows "(map_of d ''students'' \<in> {Some (PList []), Some PNone} \<longrightarrow>
            docs_of (students_df (pre @ PDict d # post)) = docs_of (students_df (pre @ post)))
    \<and> (map_of d ''teachers'' \<in> {Some (PList []), Some PNone} \<longrightarrow>
            docs_of (teachers_df (pre @ PDict d # post)) = docs_of (teachers_df (pre @ post)))
    \<and> (map_of d ''assignments'' \<in> {Some (PList []), Some PNone} \<longrightarrow>
            docs_of (assignments_df (pre @ PDict d # post))
              = docs_of (assignments_df (pre @ post)))
    \<and> (map_of d ''assignments'' = Some (PList []) \<longrightarrow>
            submissions_df (pre @ PDict d # post) = submissions_df (pre @ post))
    \<and> (map_of d ''students'' = None \<longrightarrow> isl (students_df (pre @ PDict d # post)))
    \<and> (map_of d ''teachers'' = None \<longrightarrow> isl (teachers_df (pre @ PDict d # post)))
    \<and> (map_of d ''assignments'' = None \<longrightarrow> isl (assignments_df (pre @ PDict d # post)))"
proof -
  have empty: "docs_of (map_sum id (rename m)
            (json_normalize (pre @ PDict d # post) [key] [[''course_info'', ''id'']] False))
       = docs_of (map_sum id (rename m)
            (json_normalize (pre @ post) [key] [[''course_info'', ''id'']] False))"
    if "map_of d key \<in> {Some (PList []), Some PNone}" for key m
  proof -
    from that obtain v where "map_of d key = Some v" "v = PList [] \<or> v = PNone" by auto
    from block_result_empty [OF this assms] show ?thesis by (rule empty_block_generic)
  qed
  have missing: "isl (json_normalize (pre @ PDict d # post) [key] [[''course_info'', ''id'']] False)"
    if "map_of d key = None" for key
    by (rule missing_key_generic) (simp add: pull_key_def dict_item_def that)
  show ?thesis
    using empty [of "''students''"] empty [of "''teachers''"] empty [of "''assignments''"]
      missing [of "''students''"] missing [of "''teachers''"] missing [of "''assignments''"]
      submissions_skip_empty_assignments [of d pre post]
    by (simp add: students_df_def teachers_df_def assignments_df_def isl_map_sum)
qed

theorem empty_subcollection_contributes_nothing_witness:
  "pull_path (PDict empty_block) [''course_info'', ''id''] = Inr (PStr ''c2'')
   \<and> docs_of (students_df (PDict empty_block # spec_snapshot)) = docs_of (students_df spec_snapshot)
   \<and> docs_of (teachers_df (PDict empty_block # spec_snapshot)) = docs_of (teachers_df spec_snapshot)
   \<and> docs_of (assignments_df (PDict empty_block # spec_snapshot))
        = docs_of (assignments_df spec_snapshot)
   \<and> submissions_df (PDict empty_block # spec_snapshot) = submissions_df spec_snapshot
   \<and> docs_of (students_df spec_snapshot)
        = Inr [[(''courseId'', PStr ''c1''), (''userId'', PStr ''u1'')],
               [(''courseId'', PStr ''c1''), (''userId'', PStr ''u2'')]]
   \<and> isl (students_df [PDict [(''course_info'', PDict [(''id'', PStr ''c1'')])]])"
proof -
  have x: "pull_path (PDict empty_block) [''course_info'', ''id''] = Inr (PStr ''c2'')"
    by (simp add: empty_block_def)
  have y: "pull_path (PDict [(''course_info'', PDict [(''id'', PStr ''c1'')])])
      [''course_info'', ''id''] = Inr (PStr ''c1'')"
    by simp
  have d: "docs_of (students_df spec_snapshot)
        = Inr [[(''courseId'', PStr ''c1''), (''userId'', PStr ''u1'')],
               [(''courseId'', PStr ''c1''), (''userId'', PStr ''u2'')]]"
    by code_simp
  from empty_subcollection_contributes_nothing [OF x, of "[]" spec_snapshot]
    empty_subcollection_contributes_nothing [OF y, of "[]" "[]"] x d
  show ?thesis by (simp add: empty_block_def)
qed

section \<open>The late flag\<close>

text \<open>
  Claim C8. The claim asks that \<^verbatim>\<open>late\<close> is false for a submission without that field.
  In the example no submission has the field, so the table has no column \<^verbatim>\<open>late\<close> when
  line 145 is reached, and \<^verbatim>\<open>False.fillna\<close> raises \<^verbatim>\<open>AttributeError\<close>.
\<close>

theorem late_missing_raises:
  "map_sum id columns (submissions_parsed utc_env spec_snapshot)
     = Inr [''courseId'', ''courseWorkId'', ''submissionId'', ''userId'', ''state'',
            ''creationTime'', ''submissionHistory'', ''courseId'', ''assignmentId'',
            ''assignmentTitle'', ''attachments'', ''pointsEarned_latest'']
   \<and> submissions_final utc_env spec_snapshot = Inl AttributeError"
  by code_simp

text \<open>
  This is so for every table without the column; when one submission of the snapshot has
  the field, the column exists and the others get false.
\<close>

lemma late_step_without_column:
  "''late'' \<notin> set (columns df) \<Longrightarrow> late_step df = Inl AttributeError"
  by (simp add: late_step_def)

lemma late_defaults_when_column_exists:
  "map_sum id (map (\<lambda>d. (map_of d ''submissionId'', map_of d ''late'')) \<circ> df_to_docs)
     (submissions_final utc_env mixed_late_snapshot)
   = Inr [(Some (PStr ''s1''), Some (PBool True)), (Some (PStr ''s2''), Some (PBool False)),
          (Some (PStr ''s3''), Some (PBool False))]"
  by code_simp

section \<open>The time zone of the machine\<close>





subsection \<open>Courses and assignments\<close>











subsection \<open>Submissions\<close>








text \<open>
  The condition is on these two columns only: a date without offset in the title of the
  assignment does not count, and the snapshot of the counterexample fails the condition.
\<close>

lemma times_zone_free_examples:
  "naive utc_env ''2025-09-01''
   \<and> times_zone_free utc_env (submissions_df (dated_title_snapshot ''2025-09-01''))
   \<and> submissions_final utc_env (dated_title_snapshot ''2025-09-01'')
       = submissions_final tokyo_env (dated_title_snapshot ''2025-09-01'')
   \<and> \<not> times_zone_free utc_env (submissions_df (late_snapshot ''2025-08-30T19:27:44''))"
  by code_simp

end
